theory Spec2Isabelle
  imports Complex_Main "HOL-Library.AList"
begin

section \<open>Data model (shared/taskQueueTypes.ts)\<close>

text \<open>
  An optional field \<open>f?: T\<close> is a \<open>T option\<close>, \<open>None\<close> standing for \<open>undefined\<close>. Field
  names that would clash with another record of this theory or with a HOL constant carry
  the record's name as a prefix (\<open>task_id\<close> for \<open>QueueTask.id\<close>, \<open>settings_retryCount\<close> for
  \<open>TaskQueueSettings.retryCount\<close>, and so on). Array lengths are \<open>nat\<close>.

  Numbers. A JavaScript number is a double. Timestamps, priorities, the retry counter and
  the settings other than \<open>retryCount\<close> are \<open>int\<close> here: the program stores them, compares
  them with each other, adds 1 to them and prints them, and the model covers the runs in
  which they are integers. On the safe integers (below \<open>2^53\<close> in absolute value) the
  arithmetic and the comparisons of doubles are those of the integers; the counters of a
  run stay in that range. \<open>maxRetries\<close> and the setting \<open>retryCount\<close> it is copied from
  are compared with a counter the program increments, where a fraction makes a difference,
  so they are a \<open>number\<close>: any rational or an infinity, which is what \<open>JSON.parse\<close> can
  deliver (\<open>1e999\<close> parses to \<open>Infinity\<close>; there is no literal for \<open>NaN\<close>).
\<close>

datatype number = Finite rat | PlusInfinity | MinusInfinity

definition of_integer :: "int \<Rightarrow> number" where
  "of_integer n = Finite (of_int n)"

text \<open>\<open>n < x\<close> for an integer \<open>n\<close> and a number \<open>x\<close>, and \<open>x <= y\<close> for two numbers.\<close>

fun int_less :: "int \<Rightarrow> number \<Rightarrow> bool" where
  "int_less n (Finite r) = (of_int n < r)"
| "int_less n PlusInfinity = True"
| "int_less n MinusInfinity = False"

fun number_le :: "number \<Rightarrow> number \<Rightarrow> bool" where
  "number_le MinusInfinity y = True"
| "number_le (Finite r) (Finite q) = (r \<le> q)"
| "number_le (Finite r) PlusInfinity = True"
| "number_le (Finite r) MinusInfinity = False"
| "number_le PlusInfinity y = (y = PlusInfinity)"

text \<open>
  A value produced by \<open>JSON.parse\<close>. An object is the list of its own properties, each key
  once. The scheduler does two things with a number an agent sends: it tests it for
  truthiness and it appends it to a string. \<open>JNum s\<close> is therefore a number given by the
  text \<open>s\<close> that \<open>String\<close> prints for it: \<open>0\<close> for zero, \<open>Infinity\<close> for the infinity that
  \<open>1e999\<close> parses to, and so on.
\<close>

datatype json =
  JNull
  | JBool bool
  | JNum string
  | JStr string
  | JArr "json list"
  | JObj "(string \<times> json) list"

datatype TaskStatus =
  pending | queued | in_progress | completed | failed | retrying | cancelled

datatype TaskComplexity = low | medium | high

datatype TaskErrorType = execution | timeout | network | abort

datatype TaskResultType = success | partial

text \<open>
  \<open>sessionId\<close> and \<open>message\<close> are typed \<open>string\<close> in the source, but
  \<open>executeTaskAsync\<close> stores whatever JSON value the agent sent there without checking it;
  the model keeps the value as it is.
\<close>

record TaskResult =
  result_type :: TaskResultType
  content :: string
  sessionId :: "json option"
  result_completedAt :: int

record TaskError =
  error_type :: TaskErrorType
  message :: json
  retryable :: bool
  occurredAt :: int

datatype CreatedBy = orchestrator | user

record TaskMetadata =
  parentQueueId :: string
  createdBy :: CreatedBy

record QueueTask =
  task_id :: string
  agentId :: string
  task_message :: string
  status :: TaskStatus
  priority :: int
  estimatedComplexity :: "TaskComplexity option"
  retryCount :: int
  maxRetries :: number
  createdAt :: int
  startedAt :: "int option"
  completedAt :: "int option"
  result :: "TaskResult option"
  error :: "TaskError option"
  metadata :: "TaskMetadata option"

record TaskQueueSettings =
  maxConcurrency :: int
  settings_retryCount :: number
  retryDelay :: int
  timeoutPerTask :: int

record TaskQueueMetrics =
  totalTasks :: nat
  completedTasks :: nat
  failedTasks :: nat
  pendingTasks :: nat
  inProgressTasks :: nat
  averageTaskDuration :: "rat option"

datatype QueueStatus = q_idle | q_running | q_paused | q_completed | q_failed

record TaskQueue =
  queue_id :: string
  name :: string
  description :: "string option"
  tasks :: "QueueTask list"
  settings :: TaskQueueSettings
  queue_status :: QueueStatus
  queue_createdAt :: int
  queue_startedAt :: "int option"
  queue_completedAt :: "int option"
  metrics :: TaskQueueMetrics

text \<open>JavaScript truthiness of an optional number: \<open>undefined\<close> and \<open>0\<close> are falsy.\<close>

definition truthy_num :: "int option \<Rightarrow> bool" where
  "truthy_num v = (case v of None \<Rightarrow> False | Some n \<Rightarrow> n \<noteq> 0)"

text \<open>\<open>v || 0\<close> for an optional number.\<close>

definition or_zero :: "int option \<Rightarrow> int" where
  "or_zero v = (case v of None \<Rightarrow> 0 | Some n \<Rightarrow> n)"

section \<open>TaskScheduler: metrics and the ready set\<close>

text \<open>
  \<open>TaskScheduler.calculateMetrics\<close>. The average is the exact quotient; the source stores
  the nearest double.
\<close>

definition calculateMetrics :: "QueueTask list \<Rightarrow> TaskQueueMetrics" where
  "calculateMetrics ts =
    (let completedWithDuration =
           filter (\<lambda>t. status t = completed \<and> truthy_num (startedAt t) \<and> truthy_num (completedAt t)) ts
     in \<lparr> totalTasks = length ts,
          completedTasks = length (filter (\<lambda>t. status t = completed) ts),
          failedTasks = length (filter (\<lambda>t. status t = failed) ts),
          pendingTasks = length (filter (\<lambda>t. status t = pending \<or> status t = queued) ts),
          inProgressTasks = length (filter (\<lambda>t. status t = in_progress) ts),
          averageTaskDuration =
            (if length completedWithDuration > 0
             then Some (of_int (foldl (\<lambda>sum t. sum + (or_zero (completedAt t) - or_zero (startedAt t)))
                                  0 completedWithDuration)
                        / of_nat (length completedWithDuration))
             else None) \<rparr>)"

text \<open>
  \<open>TaskScheduler.getReadyTasks\<close>. The array the source returns holds references to the
  task objects of \<open>queue.tasks\<close>; the model returns their positions in \<open>queue.tasks\<close>.
  \<open>currentRunning\<close> is \<open>this.runningTasks.size\<close>. \<open>Array.prototype.sort\<close> is stable, as is
  \<open>sort_key\<close>; \<open>slice(0, n)\<close> is \<open>take n\<close>.
\<close>

definition getReadyTasks :: "nat \<Rightarrow> QueueTask list \<Rightarrow> int \<Rightarrow> nat list" where
  "getReadyTasks currentRunning ts maxConc =
    (let availableSlots = maxConc - int currentRunning in
     if availableSlots \<le> 0 then []
     else
       let pendingTasks =
             filter (\<lambda>i. status (ts ! i) = pending \<or> status (ts ! i) = queued) [0..<length ts]
       in take (nat availableSlots) (sort_key (\<lambda>i. priority (ts ! i)) pendingTasks))"

section \<open>Numbers and strings of the JavaScript runtime\<close>

text \<open>
  The decimal digits of an integer, with a minus sign when it is negative. This is what
  \<open>String(n)\<close> and a template literal print for a safe integer \<open>n\<close>; from \<open>2^53\<close> on
  JavaScript prints the shortest digits that identify the double, filled up with zeros or
  in exponent notation, and the model does not spell such a text out (\<open>int_text\<close> below).
  \<open>decimal\<close> is applied as it is to an HTTP status, to a number of tasks and to the
  timestamps and counters of the examples, which are safe integers.
\<close>

fun string_of_nat :: "nat \<Rightarrow> string" where
  "string_of_nat n =
     (if n < 10 then [''0123456789'' ! n]
      else string_of_nat (n div 10) @ [''0123456789'' ! (n mod 10)])"

declare string_of_nat.simps [simp del]

definition decimal :: "int \<Rightarrow> string" where
  "decimal i = (if i < 0 then CHR ''-'' # string_of_nat (nat (- i)) else string_of_nat (nat i))"

text \<open>\<open>Number.isSafeInteger\<close> on an integer.\<close>

definition safe_integer :: "int \<Rightarrow> bool" where
  "safe_integer n = (\<bar>n\<bar> < 2 ^ 53)"

text \<open>
  White space as \<open>String.prototype.trim\<close> and \<open>parseInt\<close> skip it, restricted to ASCII:
  tab, line feed, vertical tab, form feed, carriage return and space.
\<close>

definition is_ws :: "char \<Rightarrow> bool" where
  "is_ws c = (c \<in> {CHR 0x09, CHR 0x0A, CHR 0x0B, CHR 0x0C, CHR 0x0D, CHR '' ''})"

definition is_digit :: "char \<Rightarrow> bool" where
  "is_digit c = (c \<in> set ''0123456789'')"

definition digit_val :: "char \<Rightarrow> nat" where
  "digit_val c = (of_char c :: nat) - 48"

text \<open>
  \<open>parseInt(s, 10)\<close>: leading white space, an optional sign, then the longest run of
  decimal digits; \<open>None\<close> is \<open>NaN\<close>. When the digits are those of a safe integer the
  result is that integer; otherwise it is the double next to the number written, which
  lies outside the model (\<open>None\<close> as well).
\<close>

definition parseInt :: "string \<Rightarrow> int option" where
  "parseInt s =
     (let s1 = dropWhile is_ws s;
          neg = (case s1 of c # _ \<Rightarrow> c = CHR ''-'' | [] \<Rightarrow> False);
          s2 = (case s1 of c # r \<Rightarrow> if c = CHR ''-'' \<or> c = CHR ''+'' then r else s1 | [] \<Rightarrow> s1);
          ds = takeWhile is_digit s2;
          v = (if neg then - 1 else 1) * int (foldl (\<lambda>a c. 10 * a + digit_val c) 0 ds)
      in if ds = [] \<or> \<not> safe_integer v then None else Some v)"

text \<open>\<open>s.split(c)\<close> for a one-character separator.\<close>

fun split_on :: "char \<Rightarrow> string \<Rightarrow> string list" where
  "split_on c [] = [[]]"
| "split_on c (x # xs) =
     (if x = c then [] # split_on c xs
      else (case split_on c xs of l # ls \<Rightarrow> (x # l) # ls | [] \<Rightarrow> [[x]]))"

text \<open>Reading a property of a parsed JSON value; \<open>None\<close> is \<open>undefined\<close>. Only objects
  carry the properties the scheduler reads (\<open>type\<close>, \<open>data\<close>, \<open>error\<close>, \<open>sessionId\<close>,
  \<open>message\<close>, \<open>content\<close>, \<open>text\<close>); reading one of \<open>null\<close> is a TypeError, which the callers
  below test for before they call \<open>get_prop\<close>.\<close>

definition get_prop :: "json \<Rightarrow> string \<Rightarrow> json option" where
  "get_prop v k = (case v of JObj kvs \<Rightarrow> map_of kvs k | _ \<Rightarrow> None)"

text \<open>Truthiness of a JSON value or \<open>undefined\<close>.\<close>

definition truthy :: "json option \<Rightarrow> bool" where
  "truthy v =
     (case v of
        None \<Rightarrow> False
      | Some JNull \<Rightarrow> False
      | Some (JBool b) \<Rightarrow> b
      | Some (JNum s) \<Rightarrow> s \<noteq> ''0''
      | Some (JStr s) \<Rightarrow> s \<noteq> []
      | Some (JArr _) \<Rightarrow> True
      | Some (JObj _) \<Rightarrow> True)"

text \<open>
  A thrown value: an \<open>Error\<close> with its \<open>name\<close> and \<open>message\<close>, or any other value, kept
  as the string \<open>String(error)\<close>.
\<close>

datatype thrown = JsError string string | NonError string

text \<open>How a block of code ends: normally with a value, or by throwing.\<close>

datatype 'a completion = Normal 'a | Raise thrown

text \<open>
  The messages of the TypeErrors the runtime throws are the engine's; the model writes
  a short form of each.
\<close>

definition cannot_convert :: thrown where
  "cannot_convert = JsError ''TypeError'' ''Cannot convert object to primitive value''"

text \<open>
  The string a JSON value turns into when it is appended to a string with \<open>+=\<close>
  (ToPrimitive, then ToString). An array joins its elements with commas, \<open>null\<close> elements
  as the empty string. An object is asked for its \<open>valueOf\<close> and \<open>toString\<close> methods, in
  this order (in the other order when it is an element of an array); a parsed object
  inherits both from \<open>Object.prototype\<close>, where \<open>valueOf\<close> returns the object itself,
  which is no primitive, and \<open>toString\<close> returns \<open>[object Object]\<close>. An own property
  \<open>toString\<close> hides the inherited method and is not callable (no parsed value is), so
  neither method yields a primitive and the conversion throws a TypeError.
\<close>

fun js_toString :: "json \<Rightarrow> string completion"
  and js_join :: "json list \<Rightarrow> string completion"
  and js_elem :: "json \<Rightarrow> string completion" where
  "js_toString JNull = Normal ''null''"
| "js_toString (JBool b) = Normal (if b then ''true'' else ''false'')"
| "js_toString (JNum s) = Normal s"
| "js_toString (JStr s) = Normal s"
| "js_toString (JArr vs) = js_join vs"
| "js_toString (JObj kvs) =
     (if ''toString'' \<in> fst ` set kvs then Raise cannot_convert else Normal ''[object Object]'')"
| "js_join [] = Normal []"
| "js_join [v] = js_elem v"
| "js_join (v # w # vs) =
     (case js_elem v of
        Raise e \<Rightarrow> Raise e
      | Normal s \<Rightarrow>
          (case js_join (w # vs) of Raise e \<Rightarrow> Raise e | Normal r \<Rightarrow> Normal (s @ '','' @ r)))"
| "js_elem JNull = Normal []"
| "js_elem (JBool b) = Normal (if b then ''true'' else ''false'')"
| "js_elem (JNum s) = Normal s"
| "js_elem (JStr s) = Normal s"
| "js_elem (JArr vs) = js_join vs"
| "js_elem (JObj kvs) =
     (if ''toString'' \<in> fst ` set kvs then Raise cannot_convert else Normal ''[object Object]'')"

text \<open>
  \<open>s.toLowerCase()\<close> and \<open>s.includes(t)\<close>. The strings of the model are made of
  one-byte characters, of which \<open>toLowerCase\<close> changes the letters \<open>A\<close> to \<open>Z\<close>.
\<close>

definition lower_char :: "char \<Rightarrow> char" where
  "lower_char c =
     (if 65 \<le> (of_char c :: nat) \<and> (of_char c :: nat) \<le> 90 then char_of (of_char c + 32 :: nat) else c)"

definition toLowerCase :: "string \<Rightarrow> string" where
  "toLowerCase s = map lower_char s"

fun starts_with :: "string \<Rightarrow> string \<Rightarrow> bool" where
  "starts_with s [] = True"
| "starts_with [] (c # t) = False"
| "starts_with (d # s) (c # t) = (d = c \<and> starts_with s t)"

fun str_includes :: "string \<Rightarrow> string \<Rightarrow> bool" where
  "str_includes [] t = (t = [])"
| "str_includes (c # s) t = (starts_with (c # s) t \<or> str_includes s t)"

section \<open>Agent Invoker: executeAgentHttpRequest and executeTaskAsync\<close>

text \<open>
  What the network does is the input of the model. \<open>fetch\<close> rejects or resolves with a
  response; \<open>response.text()\<close> may reject (\<open>None\<close>); the body is absent (\<open>None\<close>) or a
  stream that delivers decoded chunks and then ends, misses the 30 s read deadline, or
  fails (an abort makes \<open>fetch\<close> or \<open>read\<close> reject with an \<open>AbortError\<close>).
  \<open>response.status\<close> is an integer of at most three digits, and \<open>response.ok\<close> is the
  Fetch standard's: the status is in 200..299.
\<close>

datatype stream_end = EndOfStream | ReadTimeout | ReadRejected thrown

record http_response =
  http_status :: int
  error_text :: "string option"
  body :: "(string list \<times> stream_end) option"

datatype fetch_result = FetchRejected thrown | FetchResponse http_response

record agent =
  agent_id :: string
  apiEndpoint :: string
  workingDirectory :: string

definition response_ok :: "http_response \<Rightarrow> bool" where
  "response_ok r = (200 \<le> http_status r \<and> http_status r \<le> 299)"

text \<open>The frames the generator makes up itself.\<close>

definition done_frame :: json where
  "done_frame = JObj [(''type'', JStr ''done'')]"

definition aborted_frame :: json where
  "aborted_frame = JObj [(''type'', JStr ''aborted'')]"

definition error_frame :: "string \<Rightarrow> json" where
  "error_frame msg = JObj [(''type'', JStr ''error''), (''error'', JStr msg)]"

text \<open>The outer \<open>catch\<close> of \<open>executeAgentHttpRequest\<close>: the frame it yields.\<close>

definition catch_frame :: "thrown \<Rightarrow> json" where
  "catch_frame e =
     (case e of
        JsError nm msg \<Rightarrow> if nm = ''AbortError'' then aborted_frame else error_frame msg
      | NonError s \<Rightarrow> error_frame s)"

text \<open>The message of the \<open>Error\<close> thrown for a response that is not \<open>ok\<close>.\<close>

definition status_error_message :: "agent \<Rightarrow> http_response \<Rightarrow> string" where
  "status_error_message a r =
     (let errorText = (case error_text r of Some t \<Rightarrow> t | None \<Rightarrow> ''Unable to read error response'')
      in if http_status r = 401 \<or> http_status r = 403 then
           ''Authentication failed for agent '' @ agent_id a @ ''. Status: '' @ decimal (http_status r)
         else if http_status r \<ge> 500 then
           ''Agent '' @ agent_id a @ '' server error ('' @ decimal (http_status r) @ ''): '' @ errorText
         else
           ''HTTP error from agent '' @ agent_id a @ ''! status: '' @ decimal (http_status r))"

text \<open>
  The \<open>for (const line of lines)\<close> loop over one chunk. \<open>parse\<close> is \<open>JSON.parse\<close>
  (\<open>None\<close>: a SyntaxError, caught and skipped). The result is the frames yielded and
  whether the generator returned (after a \<open>done\<close> or \<open>error\<close> frame). A line that parses
  to \<open>null\<close> is yielded; reading its \<open>type\<close> then throws inside the inner \<open>try\<close>, which
  skips to the next line like any other line whose type is neither \<open>done\<close> nor \<open>error\<close>.
\<close>

fun process_lines :: "(string \<Rightarrow> json option) \<Rightarrow> string list \<Rightarrow> json list \<times> bool" where
  "process_lines parse [] = ([], False)"
| "process_lines parse (line # ls) =
     (case parse line of
        None \<Rightarrow> process_lines parse ls
      | Some streamResponse \<Rightarrow>
          if get_prop streamResponse ''type'' = Some (JStr ''done'')
             \<or> get_prop streamResponse ''type'' = Some (JStr ''error'')
          then ([streamResponse], True)
          else (let (fs, returned) = process_lines parse ls in (streamResponse # fs, returned)))"

text \<open>\<open>chunk.split("\n").filter((line) => line.trim())\<close>.\<close>

definition chunk_lines :: "string \<Rightarrow> string list" where
  "chunk_lines chunk = filter (\<lambda>line. \<exists>c \<in> set line. \<not> is_ws c) (split_on (CHR 0x0A) chunk)"

datatype loop_exit = Break | Returned | Threw thrown

text \<open>
  The \<open>while (true)\<close> read loop: the frames yielded and how the loop was left.
  \<open>reader.releaseLock()\<close> in the \<open>finally\<close> block is taken not to throw.
\<close>

fun read_loop :: "(string \<Rightarrow> json option) \<Rightarrow> string list \<Rightarrow> stream_end \<Rightarrow> json list \<times> loop_exit" where
  "read_loop parse [] EndOfStream = ([], Break)"
| "read_loop parse [] ReadTimeout = ([], Threw (JsError ''Error'' ''Stream read timeout after 30 seconds''))"
| "read_loop parse [] (ReadRejected e) = ([], Threw e)"
| "read_loop parse (chunk # cs) e =
     (let (fs, returned) = process_lines parse (chunk_lines chunk) in
      if returned then (fs, Returned)
      else (let (fs', ex) = read_loop parse cs e in (fs @ fs', ex)))"

text \<open>The body of the outer \<open>try\<close>: the frames yielded and how the block ended.\<close>

definition executeAgentHttpRequest_try ::
  "(string \<Rightarrow> json option) \<Rightarrow> agent \<Rightarrow> fetch_result \<Rightarrow> json list \<times> unit completion" where
  "executeAgentHttpRequest_try parse a fr =
     (case fr of
        FetchRejected e \<Rightarrow> ([], Raise e)
      | FetchResponse r \<Rightarrow>
          if \<not> response_ok r then ([], Raise (JsError ''Error'' (status_error_message a r)))
          else (case body r of
                  None \<Rightarrow> ([], Raise (JsError ''Error'' ''No response body from agent endpoint''))
                | Some (chunks, e) \<Rightarrow>
                    (case read_loop parse chunks e of
                       (fs, Break) \<Rightarrow> (fs @ [done_frame], Normal ())
                     | (fs, Returned) \<Rightarrow> (fs, Normal ())
                     | (fs, Threw ex) \<Rightarrow> (fs, Raise ex))))"

text \<open>
  \<open>executeAgentHttpRequest\<close>: the frames the generator yields when it is run to its end,
  and how it ends for its consumer.
\<close>

definition executeAgentHttpRequest ::
  "(string \<Rightarrow> json option) \<Rightarrow> agent \<Rightarrow> fetch_result \<Rightarrow> json list \<times> unit completion" where
  "executeAgentHttpRequest parse a fr =
     (case executeAgentHttpRequest_try parse a fr of
        (fs, Normal u) \<Rightarrow> (fs, Normal u)
      | (fs, Raise e) \<Rightarrow> (fs @ [catch_frame e], Normal ()))"

text \<open>
  The inner loop of \<open>executeTaskAsync\<close> over the blocks of an assistant message:
  \<open>if (block.text) fullContent += block.text\<close>. Reading \<open>text\<close> of a \<open>null\<close> block throws,
  and so does appending a text that has no string.
\<close>

definition cannot_read_null :: thrown where
  "cannot_read_null = JsError ''TypeError'' ''Cannot read properties of null''"

fun append_blocks :: "json list \<Rightarrow> string \<Rightarrow> string completion" where
  "append_blocks [] fullContent = Normal fullContent"
| "append_blocks (block # bs) fullContent =
     (if block = JNull then Raise cannot_read_null
      else if truthy (get_prop block ''text'')
      then (case js_toString (the (get_prop block ''text'')) of
              Raise e \<Rightarrow> Raise e
            | Normal text \<Rightarrow> append_blocks bs (fullContent @ text))
      else append_blocks bs fullContent)"

text \<open>
  \<open>data.message?.content\<close>, and the \<open>for ... of\<close> over it: an array is iterated, a string
  is iterated character by character (no character has a \<open>text\<close>), anything else that is
  truthy is not iterable.
\<close>

definition message_content :: "json \<Rightarrow> json option" where
  "message_content data =
     (case get_prop data ''message'' of
        None \<Rightarrow> None
      | Some JNull \<Rightarrow> None
      | Some m \<Rightarrow> get_prop m ''content'')"

definition not_iterable :: thrown where
  "not_iterable = JsError ''TypeError'' ''content is not iterable''"

definition append_content :: "json \<Rightarrow> string \<Rightarrow> string completion" where
  "append_content c fullContent =
     (case c of
        JArr bs \<Rightarrow> append_blocks bs fullContent
      | JStr s \<Rightarrow> Normal fullContent
      | _ \<Rightarrow> Raise not_iterable)"

text \<open>
  The \<open>for await\<close> loop of \<open>executeTaskAsync\<close> over the frames of the generator. \<open>gen_end\<close>
  is how the generator ends once its frames are used up; \<open>now\<close> is \<open>Date.now()\<close>.
  \<open>Inl\<close> is a \<open>TaskResult\<close>, \<open>Inr\<close> a \<open>TaskError\<close>.
\<close>

fun consume_frames ::
  "json list \<Rightarrow> unit completion \<Rightarrow> int \<Rightarrow> string \<Rightarrow> json option \<Rightarrow> (TaskResult + TaskError) completion" where
  "consume_frames [] gen_end now fullContent sid =
     (case gen_end of
        Raise e \<Rightarrow> Raise e
      | Normal _ \<Rightarrow>
          Normal (Inl \<lparr> result_type = success, content = fullContent, sessionId = sid,
                        result_completedAt = now \<rparr>))"
| "consume_frames (response # rs) gen_end now fullContent sid =
     (if response = JNull then Raise cannot_read_null
      else if get_prop response ''type'' = Some (JStr ''claude_json'') \<and> truthy (get_prop response ''data'')
      then
        (let data = the (get_prop response ''data'');
             sid' = (if truthy (get_prop data ''sessionId'') then get_prop data ''sessionId'' else sid)
         in if get_prop data ''type'' = Some (JStr ''assistant'') \<and> truthy (message_content data)
            then (case append_content (the (message_content data)) fullContent of
                    Raise e \<Rightarrow> Raise e
                  | Normal fullContent' \<Rightarrow> consume_frames rs gen_end now fullContent' sid')
            else consume_frames rs gen_end now fullContent sid')
      else if get_prop response ''type'' = Some (JStr ''error'')
      then Normal (Inr \<lparr> error_type = execution,
                         message = (if truthy (get_prop response ''error'')
                                    then the (get_prop response ''error'') else JStr ''Unknown error''),
                         retryable = True, occurredAt = now \<rparr>)
      else if get_prop response ''type'' = Some (JStr ''aborted'')
      then Normal (Inr \<lparr> error_type = abort, message = JStr ''Task was aborted'',
                         retryable = False, occurredAt = now \<rparr>)
      else consume_frames rs gen_end now fullContent sid)"

text \<open>\<open>TaskScheduler.executeTaskAsync\<close>: a \<open>TaskResult\<close>, a \<open>TaskError\<close>, or a rejection.\<close>

definition executeTaskAsync ::
  "(string \<Rightarrow> json option) \<Rightarrow> agent \<Rightarrow> fetch_result \<Rightarrow> int \<Rightarrow> (TaskResult + TaskError) completion" where
  "executeTaskAsync parse a fr now =
     (let (frames, gen_end) = executeAgentHttpRequest parse a fr
      in consume_frames frames gen_end now [] None)"

text \<open>
  The catch handler \<open>startTask\<close> attaches to the promise of \<open>executeTaskAsync\<close>, with
  \<open>isRetryableError\<close>: what \<open>startTask\<close> leaves in \<open>completedResults\<close> for an invocation
  that ended as \<open>c\<close>.
\<close>

definition isRetryableError :: "thrown \<Rightarrow> bool" where
  "isRetryableError err =
     (case err of
        NonError v \<Rightarrow> True
      | JsError nm msg \<Rightarrow>
          (let message = toLowerCase msg
           in str_includes message ''timeout'' \<or> str_includes message ''network''
              \<or> str_includes message ''econnrefused'' \<or> str_includes message ''503''
              \<or> str_includes message ''502'' \<or> str_includes message ''429''))"

definition startTask_outcome :: "(TaskResult + TaskError) completion \<Rightarrow> int \<Rightarrow> TaskResult + TaskError" where
  "startTask_outcome c now =
     (case c of
        Normal res \<Rightarrow> res
      | Raise err \<Rightarrow>
          Inr \<lparr> error_type = execution,
                message = JStr (case err of JsError nm msg \<Rightarrow> msg | NonError v \<Rightarrow> v),
                retryable = isRetryableError err, occurredAt = now \<rparr>)"

text \<open>
  Frames \<open>executeTaskAsync\<close> can read without a TypeError: the frame is not \<open>null\<close>, and
  when it is a \<open>claude_json\<close> frame carrying an assistant message with a truthy
  \<open>content\<close>, that content is a string or an array whose elements are not \<open>null\<close> and
  have a \<open>text\<close> that is falsy or has a string. \<open>frames_read\<close> are the frames
  \<open>executeTaskAsync\<close> gets to: it returns at the first \<open>error\<close> or \<open>aborted\<close> frame.
\<close>

definition has_string :: "json \<Rightarrow> bool" where
  "has_string v = (case js_toString v of Normal s \<Rightarrow> True | Raise e \<Rightarrow> False)"

definition block_ok :: "json \<Rightarrow> bool" where
  "block_ok block =
     (block \<noteq> JNull
      \<and> (truthy (get_prop block ''text'') \<longrightarrow> has_string (the (get_prop block ''text''))))"

definition content_ok :: "json \<Rightarrow> bool" where
  "content_ok c = (case c of JArr bs \<Rightarrow> list_all block_ok bs | JStr s \<Rightarrow> True | _ \<Rightarrow> False)"

definition frame_ok :: "json \<Rightarrow> bool" where
  "frame_ok f =
     (f \<noteq> JNull \<and>
      (if get_prop f ''type'' = Some (JStr ''claude_json'') \<and> truthy (get_prop f ''data'')
          \<and> get_prop (the (get_prop f ''data'')) ''type'' = Some (JStr ''assistant'')
          \<and> truthy (message_content (the (get_prop f ''data'')))
       then content_ok (the (message_content (the (get_prop f ''data''))))
       else True))"

fun frames_read :: "json list \<Rightarrow> json list" where
  "frames_read [] = []"
| "frames_read (f # fs) =
     (if get_prop f ''type'' = Some (JStr ''error'') \<or> get_prop f ''type'' = Some (JStr ''aborted'')
      then [f] else f # frames_read fs)"

text \<open>The \<open>TaskError\<close> an invocation returned, if it returned one.\<close>

definition error_of :: "(TaskResult + TaskError) completion \<Rightarrow> TaskError option" where
  "error_of c = (case c of Normal (Inr e) \<Rightarrow> Some e | _ \<Rightarrow> None)"

text \<open>Frames that report a failure to the consumer.\<close>

definition failure_frame :: "json \<Rightarrow> bool" where
  "failure_frame f =
     (get_prop f ''type'' = Some (JStr ''error'') \<or> get_prop f ''type'' = Some (JStr ''aborted''))"

section \<open>Queue Store (RedisQueueStore.ts)\<close>

text \<open>
  A string held in Redis. \<open>Json d\<close> is the text \<open>JSON.stringify\<close> produced for the
  document \<open>d\<close>: it is not empty, and \<open>JSON.parse\<close> gives \<open>d\<close> back, except that an
  infinite number has become \<open>null\<close> (\<open>parsed_back\<close> and \<open>parsed_settings\<close> below).
  \<open>NumText x\<close> is the text \<open>String(x)\<close> of a number that is neither a safe integer nor
  infinite: it is not empty, and the model does not spell it out. \<open>Str s\<close> is any other
  string. The store writes JSON text only into the fields \<open>settings\<close>, \<open>metrics\<close>,
  \<open>result\<close>, \<open>error\<close> and \<open>metadata\<close>, and reads it back from the same fields only.
\<close>

datatype jdoc =
  DocResult TaskResult
  | DocError TaskError
  | DocMetadata TaskMetadata
  | DocSettings TaskQueueSettings
  | DocMetrics TaskQueueMetrics

datatype rstring = Str string | Json jdoc | NumText number

text \<open>\<open>String(n)\<close> for an integer and for a number.\<close>

definition int_text :: "int \<Rightarrow> rstring" where
  "int_text n = (if safe_integer n then Str (decimal n) else NumText (of_integer n))"

fun number_text :: "number \<Rightarrow> rstring" where
  "number_text (Finite r) = (if r = of_int \<lfloor>r\<rfloor> then int_text \<lfloor>r\<rfloor> else NumText (Finite r))"
| "number_text PlusInfinity = Str ''Infinity''"
| "number_text MinusInfinity = Str ''-Infinity''"

text \<open>
  What \<open>JSON.parse(JSON.stringify(v))\<close> is for a parsed value \<open>v\<close>: \<open>JSON.stringify\<close>
  writes \<open>null\<close> for an infinite number.
\<close>

fun parsed_back :: "json \<Rightarrow> json"
  and parsed_back_list :: "json list \<Rightarrow> json list"
  and parsed_back_props :: "(string \<times> json) list \<Rightarrow> (string \<times> json) list" where
  "parsed_back JNull = JNull"
| "parsed_back (JBool b) = JBool b"
| "parsed_back (JNum s) = (if s = ''Infinity'' \<or> s = ''-Infinity'' then JNull else JNum s)"
| "parsed_back (JStr s) = JStr s"
| "parsed_back (JArr vs) = JArr (parsed_back_list vs)"
| "parsed_back (JObj kvs) = JObj (parsed_back_props kvs)"
| "parsed_back_list [] = []"
| "parsed_back_list (v # vs) = parsed_back v # parsed_back_list vs"
| "parsed_back_props [] = []"
| "parsed_back_props (kv # kvs) = (fst kv, parsed_back (snd kv)) # parsed_back_props kvs"

text \<open>
  The settings read back from their JSON text. An infinite \<open>retryCount\<close> comes back as
  \<open>null\<close>, which is no number: the object is then not of the type \<open>TaskQueueSettings\<close>
  (\<open>None\<close>).
\<close>

definition parsed_settings :: "TaskQueueSettings \<Rightarrow> TaskQueueSettings option" where
  "parsed_settings st =
     (case settings_retryCount st of Finite r \<Rightarrow> Some st | _ \<Rightarrow> None)"

type_synonym rhash = "string \<rightharpoonup> rstring"

text \<open>
  The Redis database: hashes, lists, sets and sorted sets by key. Redis holds one value
  per key and refuses a command on a key of another kind; the four kinds are kept apart
  here, which agrees with Redis as long as no key is used with two kinds (the store's key
  patterns collide only for ids that contain a key prefix, such as a queue id
  \<open>tasks:x\<close>).
\<close>

record redis =
  hashes :: "string \<Rightarrow> rhash"
  lists :: "string \<Rightarrow> string list"
  sets :: "string \<Rightarrow> string set"
  zsets :: "string \<Rightarrow> (string \<rightharpoonup> int)"

definition empty_redis :: redis where
  "empty_redis = \<lparr> hashes = (\<lambda>k. Map.empty), lists = (\<lambda>k. []), sets = (\<lambda>k. {}),
                    zsets = (\<lambda>k. Map.empty) \<rparr>"

text \<open>\<open>hSet(key, data)\<close>: the object \<open>data\<close> is given as the list of its entries.\<close>

definition hSet :: "redis \<Rightarrow> string \<Rightarrow> (string \<times> rstring) list \<Rightarrow> redis" where
  "hSet db key data = db \<lparr> hashes := (hashes db) (key := hashes db key ++ map_of data) \<rparr>"

definition hGetAll :: "redis \<Rightarrow> string \<Rightarrow> rhash" where
  "hGetAll db key = hashes db key"

definition rPush :: "redis \<Rightarrow> string \<Rightarrow> string \<Rightarrow> redis" where
  "rPush db key v = db \<lparr> lists := (lists db) (key := lists db key @ [v]) \<rparr>"

definition lPush :: "redis \<Rightarrow> string \<Rightarrow> string \<Rightarrow> redis" where
  "lPush db key v = db \<lparr> lists := (lists db) (key := v # lists db key) \<rparr>"

text \<open>\<open>lRange(key, 0, -1)\<close>: the whole list.\<close>

definition lRange_all :: "redis \<Rightarrow> string \<Rightarrow> string list" where
  "lRange_all db key = lists db key"

definition zAdd :: "redis \<Rightarrow> string \<Rightarrow> int \<Rightarrow> string \<Rightarrow> redis" where
  "zAdd db key score v = db \<lparr> zsets := (zsets db) (key := (zsets db key) (v \<mapsto> score)) \<rparr>"

definition del :: "redis \<Rightarrow> string \<Rightarrow> redis" where
  "del db key = db \<lparr> hashes := (hashes db) (key := Map.empty), lists := (lists db) (key := []),
                      sets := (sets db) (key := {}), zsets := (zsets db) (key := Map.empty) \<rparr>"

text \<open>The key prefixes \<open>KEYS\<close>.\<close>

definition KEY_QUEUE :: string where "KEY_QUEUE = ''queue:''"
definition KEY_QUEUE_TASKS :: string where "KEY_QUEUE_TASKS = ''queue:tasks:''"
definition KEY_TASK :: string where "KEY_TASK = ''task:''"
definition KEY_PENDING :: string where "KEY_PENDING = ''queue:pending:''"
definition KEY_BUSY_AGENTS :: string where "KEY_BUSY_AGENTS = ''busy_agents''"
definition KEY_QUEUE_LIST :: string where "KEY_QUEUE_LIST = ''queues''"

text \<open>The status names as the strings TypeScript uses for them.\<close>

fun status_string :: "TaskStatus \<Rightarrow> string" where
  "status_string pending = ''pending''"
| "status_string queued = ''queued''"
| "status_string in_progress = ''in_progress''"
| "status_string completed = ''completed''"
| "status_string failed = ''failed''"
| "status_string retrying = ''retrying''"
| "status_string cancelled = ''cancelled''"

definition status_of_string :: "string \<Rightarrow> TaskStatus option" where
  "status_of_string s =
     (if s = ''pending'' then Some pending else if s = ''queued'' then Some queued
      else if s = ''in_progress'' then Some in_progress else if s = ''completed'' then Some completed
      else if s = ''failed'' then Some failed else if s = ''retrying'' then Some retrying
      else if s = ''cancelled'' then Some cancelled else None)"

fun queue_status_string :: "QueueStatus \<Rightarrow> string" where
  "queue_status_string q_idle = ''idle''"
| "queue_status_string q_running = ''running''"
| "queue_status_string q_paused = ''paused''"
| "queue_status_string q_completed = ''completed''"
| "queue_status_string q_failed = ''failed''"

definition queue_status_of_string :: "string \<Rightarrow> QueueStatus option" where
  "queue_status_of_string s =
     (if s = ''idle'' then Some q_idle else if s = ''running'' then Some q_running
      else if s = ''paused'' then Some q_paused else if s = ''completed'' then Some q_completed
      else if s = ''failed'' then Some q_failed else None)"

fun complexity_string :: "TaskComplexity \<Rightarrow> string" where
  "complexity_string low = ''low''"
| "complexity_string medium = ''medium''"
| "complexity_string high = ''high''"

definition complexity_of_string :: "string \<Rightarrow> TaskComplexity option" where
  "complexity_of_string s =
     (if s = ''low'' then Some low else if s = ''medium'' then Some medium
      else if s = ''high'' then Some high else None)"

text \<open>\<open>n ? String(n) : ""\<close> for an optional number.\<close>

definition opt_num_string :: "int option \<Rightarrow> rstring" where
  "opt_num_string v = (if truthy_num v then int_text (the v) else Str [])"

text \<open>A hash field is falsy when it is absent or the empty string.\<close>

definition field_truthy :: "rhash \<Rightarrow> string \<Rightarrow> bool" where
  "field_truthy h k =
     (case h k of
        None \<Rightarrow> False
      | Some (Str s) \<Rightarrow> s \<noteq> []
      | Some (Json d) \<Rightarrow> True
      | Some (NumText x) \<Rightarrow> True)"

text \<open>
  A field read as plain text; \<open>None\<close> when it is absent, holds JSON text or holds the
  text of a number that the model does not spell out.
\<close>

definition field_str :: "rhash \<Rightarrow> string \<Rightarrow> string option" where
  "field_str h k = (case h k of Some (Str s) \<Rightarrow> Some s | _ \<Rightarrow> None)"

text \<open>
  \<open>parseInt(String(x), 10)\<close> for a number \<open>x\<close> that is not a safe integer. Between \<open>10^-6\<close>
  and \<open>10^21\<close> \<open>String\<close> writes no exponent, and the digits before the point are those of
  \<open>x\<close> cut off towards zero (for an integer, the digits of a number that rounds to the
  same double). Outside this range the text has an exponent, \<open>parseInt\<close> stops at its
  \<open>e\<close> or at the point, and the result lies outside the model (\<open>None\<close>).
\<close>

fun parseInt_text :: "number \<Rightarrow> int option" where
  "parseInt_text (Finite r) =
     (if 1 / 10 ^ 6 \<le> \<bar>r\<bar> \<and> \<bar>r\<bar> < 10 ^ 21 then Some (if r < 0 then - \<lfloor>- r\<rfloor> else \<lfloor>r\<rfloor>) else None)"
| "parseInt_text PlusInfinity = None"
| "parseInt_text MinusInfinity = None"

text \<open>
  \<open>parseInt(h.k, 10)\<close>; \<open>None\<close> is \<open>NaN\<close> (also for a field that is absent or holds
  JSON text) or a result outside the model.
\<close>

definition field_int :: "rhash \<Rightarrow> string \<Rightarrow> int option" where
  "field_int h k =
     (case h k of Some (Str s) \<Rightarrow> parseInt s | Some (NumText x) \<Rightarrow> parseInt_text x | _ \<Rightarrow> None)"

text \<open>\<open>h.k ? parseInt(h.k, 10) : undefined\<close>; the outer \<open>None\<close> is that of \<open>field_int\<close>.\<close>

definition field_opt_int :: "rhash \<Rightarrow> string \<Rightarrow> int option option" where
  "field_opt_int h k =
     (if field_truthy h k then map_option Some (field_int h k) else Some None)"

text \<open>
  What a load returns: \<open>null\<close> (\<open>Absent\<close>), a value of the TypeScript type (\<open>Loaded\<close>), or
  an object that is not of that type because a field of the hash does not hold what the
  type says: a number that does not parse, a status name that does not exist, a missing
  field (\<open>Untyped\<close>; the source casts without checking). A hash with a number text of
  which \<open>parseInt\<close> makes a number outside the model is \<open>Untyped\<close> as well.
\<close>

datatype 'a loaded = Absent | Loaded 'a | Untyped

text \<open>The fields \<open>saveTask\<close> writes.\<close>

definition taskData :: "QueueTask \<Rightarrow> (string \<times> rstring) list" where
  "taskData t =
     [(''id'', Str (task_id t)),
      (''agentId'', Str (agentId t)),
      (''message'', Str (task_message t)),
      (''status'', Str (status_string (status t))),
      (''priority'', int_text (priority t)),
      (''retryCount'', int_text (retryCount t)),
      (''maxRetries'', number_text (maxRetries t)),
      (''createdAt'', int_text (createdAt t)),
      (''startedAt'', opt_num_string (startedAt t)),
      (''completedAt'', opt_num_string (completedAt t)),
      (''estimatedComplexity'',
         (case estimatedComplexity t of Some c \<Rightarrow> Str (complexity_string c) | None \<Rightarrow> Str [])),
      (''result'', (case result t of Some r \<Rightarrow> Json (DocResult r) | None \<Rightarrow> Str [])),
      (''error'', (case error t of Some e \<Rightarrow> Json (DocError e) | None \<Rightarrow> Str [])),
      (''metadata'', (case metadata t of Some m \<Rightarrow> Json (DocMetadata m) | None \<Rightarrow> Str []))]"

text \<open>
  The store object: \<open>client\<close> is \<open>null\<close> (\<open>None\<close>) until \<open>connect\<close> succeeds. Each
  operation returns the store as it leaves it.
\<close>

type_synonym store = "redis option"

definition saveTask :: "store \<Rightarrow> QueueTask \<Rightarrow> store" where
  "saveTask c t =
     (case c of None \<Rightarrow> None | Some db \<Rightarrow> Some (hSet db (KEY_TASK @ task_id t) (taskData t)))"

text \<open>The task object \<open>loadTask\<close> builds from a hash, when every field is of its type.\<close>

definition typed_task :: "rhash \<Rightarrow> QueueTask option" where
  "typed_task h =
     Option.bind (field_str h ''id'') (\<lambda>i.
     Option.bind (field_str h ''agentId'') (\<lambda>a.
     Option.bind (field_str h ''message'') (\<lambda>m.
     Option.bind (Option.bind (field_str h ''status'') status_of_string) (\<lambda>st.
     Option.bind (field_int h ''priority'') (\<lambda>p.
     Option.bind (if field_truthy h ''estimatedComplexity''
                  then map_option Some (Option.bind (field_str h ''estimatedComplexity'') complexity_of_string)
                  else Some None) (\<lambda>ec.
     Option.bind (field_int h ''retryCount'') (\<lambda>rc.
     Option.bind (map_option of_integer (field_int h ''maxRetries'')) (\<lambda>mr.
     Option.bind (field_int h ''createdAt'') (\<lambda>ca.
     Option.bind (field_opt_int h ''startedAt'') (\<lambda>sa.
     Option.bind (field_opt_int h ''completedAt'') (\<lambda>coa.
       Some \<lparr> task_id = i, agentId = a, task_message = m, status = st, priority = p,
              estimatedComplexity = ec, retryCount = rc, maxRetries = mr, createdAt = ca,
              startedAt = sa, completedAt = coa,
              result = (case h ''result'' of
                          Some (Json (DocResult r)) \<Rightarrow>
                            Some (r \<lparr> sessionId := map_option parsed_back (sessionId r) \<rparr>)
                        | _ \<Rightarrow> None),
              error = (case h ''error'' of
                         Some (Json (DocError e)) \<Rightarrow> Some (e \<lparr> message := parsed_back (message e) \<rparr>)
                       | _ \<Rightarrow> None),
              metadata = (case h ''metadata'' of Some (Json (DocMetadata d)) \<Rightarrow> Some d | _ \<Rightarrow> None)
            \<rparr>)))))))))))"

definition loadTask :: "store \<Rightarrow> string \<Rightarrow> QueueTask loaded" where
  "loadTask c taskId =
     (case c of
        None \<Rightarrow> Absent
      | Some db \<Rightarrow>
          (let h = hGetAll db (KEY_TASK @ taskId) in
           if \<not> field_truthy h ''id'' then Absent
           else (case typed_task h of Some t \<Rightarrow> Loaded t | None \<Rightarrow> Untyped)))"

text \<open>
  The argument of \<open>updateTask\<close>, a
  \<open>Partial<Pick<QueueTask, "status" | "startedAt" | "completedAt" | "result" | "error" | "retryCount">>\<close>:
  \<open>None\<close> is a property that is missing or \<open>undefined\<close>, which the source cannot tell
  apart.
\<close>

record TaskUpdates =
  u_status :: "TaskStatus option"
  u_startedAt :: "int option"
  u_completedAt :: "int option"
  u_result :: "TaskResult option"
  u_error :: "TaskError option"
  u_retryCount :: "int option"

definition no_updates :: TaskUpdates where
  "no_updates = \<lparr> u_status = None, u_startedAt = None, u_completedAt = None, u_result = None,
                   u_error = None, u_retryCount = None \<rparr>"

text \<open>The \<open>data\<close> object \<open>updateTask\<close> builds, as the list of its entries: one per property
  that is not \<open>undefined\<close>.\<close>

definition update_data :: "TaskUpdates \<Rightarrow> (string \<times> rstring) list" where
  "update_data u =
     (case u_status u of Some st \<Rightarrow> [(''status'', Str (status_string st))] | None \<Rightarrow> [])
     @ (case u_startedAt u of
          Some n \<Rightarrow> [(''startedAt'', if n \<noteq> 0 then int_text n else Str [])]
        | None \<Rightarrow> [])
     @ (case u_completedAt u of
          Some n \<Rightarrow> [(''completedAt'', if n \<noteq> 0 then int_text n else Str [])]
        | None \<Rightarrow> [])
     @ (case u_result u of Some r \<Rightarrow> [(''result'', Json (DocResult r))] | None \<Rightarrow> [])
     @ (case u_error u of Some e \<Rightarrow> [(''error'', Json (DocError e))] | None \<Rightarrow> [])
     @ (case u_retryCount u of Some n \<Rightarrow> [(''retryCount'', int_text n)] | None \<Rightarrow> [])"

definition updateTask :: "store \<Rightarrow> string \<Rightarrow> TaskUpdates \<Rightarrow> store" where
  "updateTask c taskId updates =
     (case c of
        None \<Rightarrow> None
      | Some db \<Rightarrow>
          (let data = update_data updates in
           if length data > 0 then Some (hSet db (KEY_TASK @ taskId) data) else Some db))"

definition requeueTask :: "store \<Rightarrow> string \<Rightarrow> string \<Rightarrow> store" where
  "requeueTask c queueId taskId =
     (case c of None \<Rightarrow> None | Some db \<Rightarrow> Some (lPush db (KEY_PENDING @ queueId) taskId))"

definition updateQueueStatus :: "store \<Rightarrow> string \<Rightarrow> QueueStatus \<Rightarrow> int option \<Rightarrow> store" where
  "updateQueueStatus c queueId st timestamp =
     (case c of
        None \<Rightarrow> None
      | Some db \<Rightarrow>
          (let updates =
                 [(''status'', Str (queue_status_string st))]
                 @ (if st = q_running \<and> truthy_num timestamp
                    then [(''startedAt'', int_text (the timestamp))]
                    else if st = q_completed \<and> truthy_num timestamp
                    then [(''completedAt'', int_text (the timestamp))]
                    else [])
           in Some (hSet db (KEY_QUEUE @ queueId) updates)))"

text \<open>The fields \<open>saveQueue\<close> writes for the queue itself.\<close>

definition queueData :: "TaskQueue \<Rightarrow> (string \<times> rstring) list" where
  "queueData q =
     [(''id'', Str (queue_id q)),
      (''name'', Str (name q)),
      (''status'', Str (queue_status_string (queue_status q))),
      (''createdAt'', int_text (queue_createdAt q)),
      (''startedAt'', opt_num_string (queue_startedAt q)),
      (''completedAt'', opt_num_string (queue_completedAt q)),
      (''settings'', Json (DocSettings (settings q))),
      (''metrics'', Json (DocMetrics (metrics q)))]"

text \<open>One round of the \<open>for (const task of queue.tasks)\<close> loop of \<open>saveQueue\<close>.\<close>

definition save_queue_task :: "string \<Rightarrow> redis \<Rightarrow> QueueTask \<Rightarrow> redis" where
  "save_queue_task queueId db task =
     (let db1 = hSet db (KEY_TASK @ task_id task) (taskData task);
          db2 = rPush db1 (KEY_QUEUE_TASKS @ queueId) (task_id task)
      in if status task = pending \<or> status task = queued
         then rPush db2 (KEY_PENDING @ queueId) (task_id task) else db2)"

definition saveQueue :: "store \<Rightarrow> TaskQueue \<Rightarrow> store" where
  "saveQueue c q =
     (case c of
        None \<Rightarrow> None
      | Some db \<Rightarrow>
          (let db1 = hSet db (KEY_QUEUE @ queue_id q) (queueData q);
               db2 = zAdd db1 KEY_QUEUE_LIST (queue_createdAt q) (queue_id q)
           in Some (foldl (save_queue_task (queue_id q)) db2 (tasks q))))"

text \<open>
  The \<open>for (const taskId of taskIds)\<close> loop of \<open>loadQueue\<close>: tasks that load, in the order
  of the id list; ids without a task are skipped.
\<close>

fun load_tasks :: "store \<Rightarrow> string list \<Rightarrow> QueueTask list option" where
  "load_tasks c [] = Some []"
| "load_tasks c (taskId # ids) =
     (case loadTask c taskId of
        Absent \<Rightarrow> load_tasks c ids
      | Loaded t \<Rightarrow> map_option (\<lambda>ts. t # ts) (load_tasks c ids)
      | Untyped \<Rightarrow> None)"

text \<open>
  \<open>loadQueue\<close>. The object it builds has no \<open>description\<close> property. The fields
  \<open>settings\<close> and \<open>metrics\<close> are parsed as JSON; a hash where they do not hold the JSON
  text of a settings or metrics record is \<open>Untyped\<close>.
\<close>

definition loadQueue :: "store \<Rightarrow> string \<Rightarrow> TaskQueue loaded" where
  "loadQueue c queueId =
     (case c of
        None \<Rightarrow> Absent
      | Some db \<Rightarrow>
          (let h = hGetAll db (KEY_QUEUE @ queueId) in
           if \<not> field_truthy h ''id'' then Absent
           else
             (let taskIds = lRange_all db (KEY_QUEUE_TASKS @ queueId) in
              case
                Option.bind (field_str h ''id'') (\<lambda>i.
                Option.bind (field_str h ''name'') (\<lambda>n.
                Option.bind (Option.bind (field_str h ''status'') queue_status_of_string) (\<lambda>st.
                Option.bind (load_tasks c taskIds) (\<lambda>ts.
                Option.bind (case h ''settings'' of Some (Json (DocSettings st)) \<Rightarrow> parsed_settings st
                             | _ \<Rightarrow> None) (\<lambda>se.
                Option.bind (case h ''metrics'' of Some (Json (DocMetrics m)) \<Rightarrow> Some m | _ \<Rightarrow> None) (\<lambda>me.
                Option.bind (field_int h ''createdAt'') (\<lambda>ca.
                Option.bind (field_opt_int h ''startedAt'') (\<lambda>sa.
                Option.bind (field_opt_int h ''completedAt'') (\<lambda>coa.
                  Some \<lparr> queue_id = i, name = n, description = None, tasks = ts, settings = se,
                         queue_status = st, queue_createdAt = ca, queue_startedAt = sa,
                         queue_completedAt = coa, metrics = me \<rparr>)))))))))
              of Some q \<Rightarrow> Loaded q | None \<Rightarrow> Untyped)))"

text \<open>
  One round of the loop of \<open>resetInterruptedQueue\<close>. The call
  \<open>updateTask(taskId, {status: "pending", startedAt: undefined})\<close> passes \<open>startedAt\<close> as
  \<open>undefined\<close>, which is \<open>None\<close> here. A hash that is no \<open>QueueTask\<close> is outside the
  model and left as it is.
\<close>

definition reset_task :: "string \<Rightarrow> store \<Rightarrow> string \<Rightarrow> store" where
  "reset_task queueId c taskId =
     (case loadTask c taskId of
        Loaded task \<Rightarrow>
          if status task = in_progress \<or> status task = retrying then
            (let c1 = updateTask c taskId (no_updates \<lparr> u_status := Some pending, u_startedAt := None \<rparr>)
             in map_option (\<lambda>db. rPush db (KEY_PENDING @ queueId) taskId) c1)
          else if status task = pending \<or> status task = queued then
            map_option (\<lambda>db. rPush db (KEY_PENDING @ queueId) taskId) c
          else c
      | _ \<Rightarrow> c)"

definition resetInterruptedQueue :: "store \<Rightarrow> string \<Rightarrow> store" where
  "resetInterruptedQueue c queueId =
     (case c of
        None \<Rightarrow> None
      | Some db \<Rightarrow>
          (let c1 = updateQueueStatus c queueId q_paused None;
               taskIds = (case c1 of Some db1 \<Rightarrow> lRange_all db1 (KEY_QUEUE_TASKS @ queueId) | None \<Rightarrow> []);
               c2 = map_option (\<lambda>db1. del db1 (KEY_PENDING @ queueId)) c1;
               c3 = foldl (reset_task queueId) c2 taskIds
           in map_option (\<lambda>db3. del db3 KEY_BUSY_AGENTS) c3))"

definition getBusyAgents :: "store \<Rightarrow> string set" where
  "getBusyAgents c = (case c of None \<Rightarrow> {} | Some db \<Rightarrow> sets db KEY_BUSY_AGENTS)"

section \<open>Control API (handlers/taskQueue.ts)\<close>

text \<open>
  The in-memory fallback \<open>queues\<close> is a map from queue ids to queues. \<open>generateId\<close>
  reads the clock and a random source; the model takes the ids as a function \<open>gen\<close>
  from the number of the call (0 for the first) to the id it returned. \<open>now\<close> is
  \<open>Date.now()\<close>. \<open>isRedisAvailable()\<close> is \<open>c \<noteq> None\<close>.
\<close>

type_synonym memory = "string \<rightharpoonup> TaskQueue"

record TaskInput =
  input_agentId :: string
  input_message :: string
  input_priority :: "int option"
  input_estimatedComplexity :: "TaskComplexity option"

record SettingsInput =
  input_maxConcurrency :: "int option"
  input_retryCount :: "number option"
  input_retryDelay :: "int option"
  input_timeoutPerTask :: "int option"

record CreateQueueRequest =
  req_name :: "string option"
  req_description :: "string option"
  req_tasks :: "TaskInput list option"
  req_settings :: "SettingsInput option"

definition createInitialMetrics :: "nat \<Rightarrow> TaskQueueMetrics" where
  "createInitialMetrics taskCount =
     \<lparr> totalTasks = taskCount, completedTasks = 0, failedTasks = 0, pendingTasks = taskCount,
       inProgressTasks = 0, averageTaskDuration = None \<rparr>"

text \<open>\<open>body.settings?.f ?? d\<close>.\<close>

definition setting_or :: "SettingsInput option \<Rightarrow> (SettingsInput \<Rightarrow> 'a option) \<Rightarrow> 'a \<Rightarrow> 'a" where
  "setting_or s f d = (case s of None \<Rightarrow> d | Some v \<Rightarrow> (case f v of None \<Rightarrow> d | Some n \<Rightarrow> n))"

text \<open>The task built for the input at position \<open>index\<close>.\<close>

definition create_task ::
  "(nat \<Rightarrow> string) \<Rightarrow> int \<Rightarrow> string \<Rightarrow> SettingsInput option \<Rightarrow> nat \<times> TaskInput \<Rightarrow> QueueTask" where
  "create_task gen now queueId s p =
     (case p of (index, input) \<Rightarrow>
        \<lparr> task_id = gen (Suc index),
          agentId = input_agentId input,
          task_message = input_message input,
          status = pending,
          priority = (case input_priority input of Some v \<Rightarrow> v | None \<Rightarrow> int index + 1),
          estimatedComplexity = input_estimatedComplexity input,
          retryCount = 0,
          maxRetries = setting_or s input_retryCount (of_integer 3),
          createdAt = now,
          startedAt = None, completedAt = None, result = None, error = None,
          metadata = Some \<lparr> parentQueueId = queueId, createdBy = user \<rparr> \<rparr>)"

datatype create_reply = BadRequest string | Created string TaskQueue

text \<open>The queue of a 201 reply.\<close>

definition reply_queue :: "create_reply \<Rightarrow> TaskQueue option" where
  "reply_queue r = (case r of Created i q \<Rightarrow> Some q | BadRequest m \<Rightarrow> None)"

text \<open>\<open>handleCreateQueue\<close>: the reply (400 or 201), the store and the in-memory map.\<close>

definition handleCreateQueue ::
  "store \<Rightarrow> memory \<Rightarrow> (nat \<Rightarrow> string) \<Rightarrow> int \<Rightarrow> CreateQueueRequest
     \<Rightarrow> create_reply \<times> store \<times> memory" where
  "handleCreateQueue c queues gen now req =
     (if req_name req = None \<or> req_name req = Some [] \<or> req_tasks req = None
         \<or> req_tasks req = Some []
      then (BadRequest ''Name and at least one task are required'', c, queues)
      else
        (let queueId = gen 0;
             ts = map (create_task gen now queueId (req_settings req))
                      (enumerate 0 (the (req_tasks req)));
             queue = \<lparr> queue_id = queueId,
                       name = the (req_name req),
                       description = req_description req,
                       tasks = ts,
                       settings = \<lparr> maxConcurrency = setting_or (req_settings req) input_maxConcurrency 3,
                                    settings_retryCount = setting_or (req_settings req) input_retryCount (of_integer 3),
                                    retryDelay = setting_or (req_settings req) input_retryDelay 2000,
                                    timeoutPerTask = setting_or (req_settings req) input_timeoutPerTask 300000 \<rparr>,
                       queue_status = q_idle,
                       queue_createdAt = now,
                       queue_startedAt = None,
                       queue_completedAt = None,
                       metrics = createInitialMetrics (length ts) \<rparr>
         in if c \<noteq> None then (Created queueId queue, saveQueue c queue, queues)
            else (Created queueId queue, c, queues (queueId \<mapsto> queue))))"

text \<open>
  \<open>handleGetQueue\<close>, and the lookup every handler starts with: the store first when it
  is available, then the in-memory map.
\<close>

definition lookup_queue :: "store \<Rightarrow> memory \<Rightarrow> string \<Rightarrow> TaskQueue loaded" where
  "lookup_queue c queues queueId =
     (case (if c \<noteq> None then loadQueue c queueId else Absent) of
        Absent \<Rightarrow> (case queues queueId of Some q \<Rightarrow> Loaded q | None \<Rightarrow> Absent)
      | r \<Rightarrow> r)"

text \<open>The first position of \<open>queue.tasks\<close> whose task has the id, as \<open>find\<close> looks it up.\<close>

fun find_index_of :: "string \<Rightarrow> QueueTask list \<Rightarrow> nat option" where
  "find_index_of taskId [] = None"
| "find_index_of taskId (t # ts) =
     (if task_id t = taskId then Some 0 else map_option Suc (find_index_of taskId ts))"

datatype retry_reply = NotFound string | RetryOk QueueTask | RetryUntyped

text \<open>
  \<open>handleRetryTask\<close>. The task is reset in the queue object at hand: the one of the
  in-memory map when the queue came from there, a fresh copy when it was loaded from the
  store. With the store available, \<open>updateTask\<close> is called with \<open>status\<close> and
  \<open>retryCount\<close> set and \<open>error\<close>, \<open>result\<close>, \<open>startedAt\<close>, \<open>completedAt\<close> all \<open>undefined\<close>,
  then \<open>requeueTask\<close>. A queue the store holds with fields that are not of their type is
  outside the model (\<open>RetryUntyped\<close>).
\<close>

definition handleRetryTask ::
  "store \<Rightarrow> memory \<Rightarrow> string \<Rightarrow> string \<Rightarrow> retry_reply \<times> store \<times> memory" where
  "handleRetryTask c queues queueId taskId =
     (case lookup_queue c queues queueId of
        Absent \<Rightarrow> (NotFound ''Queue not found'', c, queues)
      | Untyped \<Rightarrow> (RetryUntyped, c, queues)
      | Loaded queue \<Rightarrow>
          (case find_index_of taskId (tasks queue) of
             None \<Rightarrow> (NotFound ''Task not found'', c, queues)
           | Some i \<Rightarrow>
               (let task = (tasks queue ! i)
                            \<lparr> status := pending, retryCount := 0, error := None, result := None,
                              startedAt := None, completedAt := None \<rparr>;
                    fromMemory = ((if c \<noteq> None then loadQueue c queueId else Absent) = Absent);
                    queues' = (if fromMemory
                               then queues (queueId \<mapsto> queue \<lparr> tasks := (tasks queue) [i := task] \<rparr>)
                               else queues);
                    c' = (if c \<noteq> None
                          then requeueTask
                                 (updateTask c taskId
                                    \<lparr> u_status = Some pending, u_startedAt = None, u_completedAt = None,
                                      u_result = None, u_error = None, u_retryCount = Some 0 \<rparr>)
                                 queueId taskId
                          else c)
                in (RetryOk task, c', queues'))))"

section \<open>Scheduler: executeQueue as a step function\<close>

datatype TaskQueueEvent =
  queue_started string
  | queue_paused string
  | queue_resumed string
  | queue_completed string TaskQueueMetrics
  | queue_failed string string
  | task_started string string string
  | task_completed string string TaskResult
  | task_failed string string TaskError
  | task_retrying string string int number

text \<open>
  What an invocation leaves in \<open>completedResults\<close>: a \<open>TaskResult\<close> (\<open>Inl\<close>, the object
  with a \<open>content\<close> property) or a \<open>TaskError\<close> (\<open>Inr\<close>).
\<close>

type_synonym outcome = "TaskResult + TaskError"

text \<open>
  The generator \<open>executeQueue\<close> runs from one suspension (an \<open>await\<close> or a \<open>yield\<close>) to
  the next without interruption; at a suspension the background invocations, the retry
  timers and the calls of \<open>pause\<close>, \<open>resume\<close> and \<open>stop\<close> get their turn. \<open>pc\<close> says
  where the generator is suspended:
  \<^item> \<open>Init\<close>: not started;
  \<^item> \<open>LoopHead\<close>: before the test of the main \<open>while\<close> (after one of the sleeps of the
    loop body, or after \<open>yield startEvent\<close>);
  \<^item> \<open>PauseWait\<close>: in the inner loop of the pause gate (after \<open>yield queue_paused\<close>);
  \<^item> \<open>Ready\<close>: after \<open>yield queue_resumed\<close>, before \<open>getReadyTasks\<close>;
  \<^item> \<open>Dispatch is\<close>: in the \<open>for (const task of readyTasks)\<close> loop, the tasks at the
    positions \<open>is\<close> of \<open>queue.tasks\<close> still to be handled;
  \<^item> \<open>Drain es\<close>: in the loop over the snapshot \<open>Array.from(completedResults.entries())\<close>,
    the entries \<open>es\<close> still to be handled;
  \<^item> \<open>DrainDel tid es\<close>: at the \<open>yield\<close> of the event of entry \<open>tid\<close>, before
    \<open>completedResults.delete(taskId)\<close>;
  \<^item> \<open>FinalHead\<close>, \<open>FinalSleep\<close>, \<open>FinalDrain es\<close>, \<open>FinalDel tid es\<close>: the same
    places of the loop that waits for the remaining running tasks;
  \<^item> \<open>Finish\<close>: before the final metrics; \<open>FinishEmit\<close>: after the metrics are stored,
    before the test of \<open>isStopped\<close>; \<open>Done\<close>: after the last \<open>yield\<close>.

  Every step starts and ends at a suspension of the source or at a place where the
  source runs on without suspending (from the \<open>for\<close> loop into the drain loop, from
  \<open>delete\<close> to the next entry): the second kind only gives the environment turns it
  does not have.
  With Redis connected the source suspends at more places, where it awaits the store,
  and the model does not: (a) between \<open>startTask\<close> and \<open>yield taskStartEvent\<close>, and
  between the four \<open>clear\<close> assignments and \<open>yield startEvent\<close>; (b) in the drain loop
  between \<open>find\<close> and the branch; (c) between the assignments of a branch (of the drain
  loops, or of the end of the queue) and its \<open>yield\<close>. After (a) and (c) the code only
  calls \<open>setTimeout\<close> (for a retry) and builds and yields the event, from fields nothing
  else writes; what the environment does at (a) or (c) it can as well do at the \<open>yield\<close>
  that follows. Before (b) the step has only evaluated \<open>find\<close>, which reads the ids, and
  they never change; what the environment does at (b) it can as well do before the step.
  So every run of
  the source, with or without Redis, is a run of the model with the same events.
  The writes to the store mirror the assignments to the task objects and are not part of
  this model. One \<open>executeQueue\<close> runs on the queue object at a time.
\<close>

datatype pc =
  Init
  | LoopHead
  | PauseWait
  | Ready
  | Dispatch "nat list"
  | Drain "(string \<times> outcome) list"
  | DrainDel string "(string \<times> outcome) list"
  | FinalHead
  | FinalSleep
  | FinalDrain "(string \<times> outcome) list"
  | FinalDel string "(string \<times> outcome) list"
  | Finish
  | FinishEmit
  | Done

text \<open>
  The scheduler object together with the queue it runs. \<open>runningTasks\<close> is the key list
  of the \<open>Map\<close> (only its keys and size are read), \<open>completedResults\<close> the \<open>Map\<close> as its
  entries in insertion order. \<open>inflight\<close> holds the task ids of the invocations whose
  promise has not settled yet, and \<open>timers\<close> the tasks (positions in \<open>queue.tasks\<close>) that
  a pending \<open>setTimeout\<close> will set back to \<open>pending\<close>.
\<close>

record scheduler =
  queue :: TaskQueue
  isPaused :: bool
  isStopped :: bool
  runningTasks :: "string list"
  completedResults :: "(string \<times> outcome) list"
  inflight :: "string list"
  timers :: "nat list"
  pc :: pc

definition new_scheduler :: "TaskQueue \<Rightarrow> scheduler" where
  "new_scheduler q =
     \<lparr> queue = q, isPaused = False, isStopped = False, runningTasks = [], completedResults = [],
       inflight = [], timers = [], pc = Init \<rparr>"

definition hasWorkRemaining :: "QueueTask list \<Rightarrow> bool" where
  "hasWorkRemaining ts =
     list_ex (\<lambda>task. status task = pending \<or> status task = queued \<or> status task = in_progress
                     \<or> status task = retrying) ts"

text \<open>An assignment to fields of the task object at position \<open>i\<close>.\<close>

definition update_task :: "nat \<Rightarrow> (QueueTask \<Rightarrow> QueueTask) \<Rightarrow> scheduler \<Rightarrow> scheduler" where
  "update_task i f s =
     s \<lparr> queue := (queue s) \<lparr> tasks := (tasks (queue s)) [i := f (tasks (queue s) ! i)] \<rparr> \<rparr>"

text \<open>
  \<open>startTask\<close>: the task is marked, entered into \<open>runningTasks\<close> (\<open>Map.set\<close> keeps the
  place of a key that is already there) and its invocation started.
\<close>

definition startTask :: "int \<Rightarrow> nat \<Rightarrow> scheduler \<Rightarrow> scheduler" where
  "startTask now i s =
     (let tid = task_id (tasks (queue s) ! i);
          s1 = update_task i
                 (\<lambda>t. t \<lparr> status := in_progress, startedAt := Some now,
                          maxRetries := settings_retryCount (settings (queue s)) \<rparr>) s
      in s1 \<lparr> runningTasks := (if tid \<in> set (runningTasks s) then runningTasks s
                                else runningTasks s @ [tid]),
              inflight := inflight s @ [tid] \<rparr>)"

text \<open>The branch of the \<open>for\<close> loop for a task whose agent is unknown.\<close>

definition agent_not_found :: "int \<Rightarrow> nat \<Rightarrow> scheduler \<Rightarrow> scheduler \<times> TaskQueueEvent" where
  "agent_not_found now i s =
     (let t = tasks (queue s) ! i;
          e = \<lparr> error_type = execution,
                message = JStr (''Agent '' @ agentId t @ '' not found''),
                retryable = False, occurredAt = now \<rparr>
      in (update_task i (\<lambda>t. t \<lparr> status := failed, error := Some e \<rparr>) s,
          task_failed (queue_id (queue s)) (task_id t) e))"

text \<open>
  The three branches of the drain loop of the main loop for the task at position \<open>i\<close>:
  success, retry (with its \<open>setTimeout\<close>) and permanent failure.
\<close>

definition drain_entry :: "int \<Rightarrow> nat \<Rightarrow> outcome \<Rightarrow> scheduler \<Rightarrow> scheduler \<times> TaskQueueEvent" where
  "drain_entry now i res s =
     (let t = tasks (queue s) ! i; qid = queue_id (queue s) in
      case res of
        Inl r \<Rightarrow>
          (update_task i (\<lambda>t. t \<lparr> status := completed, result := Some r, completedAt := Some now \<rparr>) s,
           task_completed qid (task_id t) r)
      | Inr e \<Rightarrow>
          if retryable e \<and> int_less (retryCount t) (maxRetries t) then
            ((update_task i (\<lambda>t. t \<lparr> status := retrying, retryCount := retryCount t + 1 \<rparr>) s)
               \<lparr> timers := timers s @ [i] \<rparr>,
             task_retrying qid (task_id t) (retryCount t + 1) (maxRetries t))
          else
            (update_task i (\<lambda>t. t \<lparr> status := failed, error := Some e, completedAt := Some now \<rparr>) s,
             task_failed qid (task_id t) e))"

text \<open>The two branches of the loop that waits for the remaining tasks: no retry there.\<close>

definition final_entry :: "int \<Rightarrow> nat \<Rightarrow> outcome \<Rightarrow> scheduler \<Rightarrow> scheduler \<times> TaskQueueEvent" where
  "final_entry now i res s =
     (let t = tasks (queue s) ! i; qid = queue_id (queue s) in
      case res of
        Inl r \<Rightarrow>
          (update_task i (\<lambda>t. t \<lparr> status := completed, result := Some r, completedAt := Some now \<rparr>) s,
           task_completed qid (task_id t) r)
      | Inr e \<Rightarrow>
          (update_task i (\<lambda>t. t \<lparr> status := failed, error := Some e, completedAt := Some now \<rparr>) s,
           task_failed qid (task_id t) e))"

text \<open>
  From \<open>getReadyTasks\<close> to the first suspension after it: nothing ready and something
  running sleeps 100 ms and goes round the loop; nothing ready and nothing running
  leaves the loop; otherwise the \<open>for\<close> loop starts.
\<close>

definition ready_step :: "scheduler \<Rightarrow> scheduler" where
  "ready_step s =
     (let readyTasks = getReadyTasks (length (runningTasks s)) (tasks (queue s))
                         (maxConcurrency (settings (queue s)))
      in if length readyTasks = 0
         then (if length (runningTasks s) > 0 then s \<lparr> pc := LoopHead \<rparr> else s \<lparr> pc := FinalHead \<rparr>)
         else s \<lparr> pc := Dispatch readyTasks \<rparr>)"

text \<open>
  The end of \<open>executeQueue\<close>. The metrics are computed and stored in the queue; after
  that (with Redis, after an await) \<open>isStopped\<close> and the number of failed tasks decide
  the queue's status and last event. \<open>metrics\<close> is a local constant of the source; it
  is read back from \<open>queue.metrics\<close> here, which nothing writes in between.
\<close>

definition finish_metrics :: "scheduler \<Rightarrow> scheduler" where
  "finish_metrics s =
     s \<lparr> queue := (queue s) \<lparr> metrics := calculateMetrics (tasks (queue s)) \<rparr>, pc := FinishEmit \<rparr>"

definition finish_step :: "int \<Rightarrow> scheduler \<Rightarrow> scheduler \<times> TaskQueueEvent" where
  "finish_step now s =
     (let m = metrics (queue s);
          qid = queue_id (queue s);
          s1 = s \<lparr> pc := Done \<rparr>
      in if isStopped s then (s1, queue_failed qid ''Queue was stopped'')
         else if failedTasks m > 0 then
           (s1 \<lparr> queue := (queue s1) \<lparr> queue_status := q_failed \<rparr> \<rparr>,
            queue_failed qid (decimal (int (failedTasks m)) @ '' task(s) failed''))
         else
           (s1 \<lparr> queue := (queue s1) \<lparr> queue_status := q_completed, queue_completedAt := Some now \<rparr> \<rparr>,
            queue_completed qid m))"

text \<open>
  One step of the generator, from its suspension \<open>pc s\<close> to the next: the new state and
  the events yielded (at most one). \<open>getAgent\<close> is the callback passed to \<open>executeQueue\<close>;
  what it answers may change while the queue runs, so it is given the time of the call.
\<close>

definition sched_step ::
  "(int \<Rightarrow> string \<Rightarrow> agent option) \<Rightarrow> int \<Rightarrow> scheduler \<Rightarrow> scheduler \<times> TaskQueueEvent list" where
  "sched_step getAgent now s =
     (case pc s of
        Init \<Rightarrow>
          (s \<lparr> isPaused := False, isStopped := False, runningTasks := [], completedResults := [],
               pc := LoopHead \<rparr>,
           [queue_started (queue_id (queue s))])
      | LoopHead \<Rightarrow>
          if hasWorkRemaining (tasks (queue s)) \<and> \<not> isStopped s then
            (if isPaused s then (s \<lparr> pc := PauseWait \<rparr>, [queue_paused (queue_id (queue s))])
             else (ready_step s, []))
          else (s \<lparr> pc := FinalHead \<rparr>, [])
      | PauseWait \<Rightarrow>
          if isPaused s \<and> \<not> isStopped s then (s, [])
          else if isStopped s then (s \<lparr> pc := FinalHead \<rparr>, [])
          else (s \<lparr> pc := Ready \<rparr>, [queue_resumed (queue_id (queue s))])
      | Ready \<Rightarrow> (ready_step s, [])
      | Dispatch [] \<Rightarrow> (s \<lparr> pc := Drain (completedResults s) \<rparr>, [])
      | Dispatch (i # rest) \<Rightarrow>
          (case getAgent now (agentId (tasks (queue s) ! i)) of
             None \<Rightarrow> (let (s1, ev) = agent_not_found now i s in (s1 \<lparr> pc := Dispatch rest \<rparr>, [ev]))
           | Some a \<Rightarrow>
               ((startTask now i s) \<lparr> pc := Dispatch rest \<rparr>,
                [task_started (queue_id (queue s)) (task_id (tasks (queue s) ! i))
                   (agentId (tasks (queue s) ! i))]))
      | Drain [] \<Rightarrow> (s \<lparr> pc := LoopHead \<rparr>, [])
      | Drain ((taskId, res) # rest) \<Rightarrow>
          (case find_index_of taskId (tasks (queue s)) of
             None \<Rightarrow> (s \<lparr> pc := Drain rest \<rparr>, [])
           | Some i \<Rightarrow> (let (s1, ev) = drain_entry now i res s in (s1 \<lparr> pc := DrainDel taskId rest \<rparr>, [ev])))
      | DrainDel taskId rest \<Rightarrow>
          (s \<lparr> completedResults := AList.delete taskId (completedResults s), pc := Drain rest \<rparr>, [])
      | FinalHead \<Rightarrow>
          if length (runningTasks s) > 0 \<and> \<not> isStopped s then (s \<lparr> pc := FinalSleep \<rparr>, [])
          else (s \<lparr> pc := Finish \<rparr>, [])
      | FinalSleep \<Rightarrow> (s \<lparr> pc := FinalDrain (completedResults s) \<rparr>, [])
      | FinalDrain [] \<Rightarrow> (s \<lparr> pc := FinalHead \<rparr>, [])
      | FinalDrain ((taskId, res) # rest) \<Rightarrow>
          (case find_index_of taskId (tasks (queue s)) of
             None \<Rightarrow> (s \<lparr> pc := FinalDrain rest \<rparr>, [])
           | Some i \<Rightarrow> (let (s1, ev) = final_entry now i res s in (s1 \<lparr> pc := FinalDel taskId rest \<rparr>, [ev])))
      | FinalDel taskId rest \<Rightarrow>
          (s \<lparr> completedResults := AList.delete taskId (completedResults s), pc := FinalDrain rest \<rparr>, [])
      | Finish \<Rightarrow> (finish_metrics s, [])
      | FinishEmit \<Rightarrow> (let (s1, ev) = finish_step now s in (s1, [ev]))
      | Done \<Rightarrow> (s, []))"

text \<open>
  The environment. An invocation that is in flight settles: the callbacks of \<open>startTask\<close>
  delete the task from \<open>runningTasks\<close> and set its entry of \<open>completedResults\<close>, to what
  \<open>startTask_outcome\<close> makes of the end of \<open>executeTaskAsync\<close>; the model lets it be any
  result or error. A retry timer fires and sets its task back to \<open>pending\<close>. \<open>pause\<close>,
  \<open>resume\<close> and \<open>stop\<close> are the scheduler's methods; the invocations \<open>stop\<close> aborts stay in
  flight until they settle.
\<close>

definition settle :: "string \<Rightarrow> outcome \<Rightarrow> scheduler \<Rightarrow> scheduler" where
  "settle tid res s =
     (if tid \<in> set (inflight s)
      then s \<lparr> inflight := remove1 tid (inflight s),
               runningTasks := removeAll tid (runningTasks s),
               completedResults := AList.update tid res (completedResults s) \<rparr>
      else s)"

definition timer_fires :: "nat \<Rightarrow> scheduler \<Rightarrow> scheduler" where
  "timer_fires i s =
     (if i \<in> set (timers s)
      then (update_task i (\<lambda>t. t \<lparr> status := pending \<rparr>) s) \<lparr> timers := remove1 i (timers s) \<rparr>
      else s)"

definition pause :: "scheduler \<Rightarrow> scheduler" where
  "pause s = s \<lparr> isPaused := True \<rparr>"

definition resume :: "scheduler \<Rightarrow> scheduler" where
  "resume s = s \<lparr> isPaused := False \<rparr>"

definition stop :: "scheduler \<Rightarrow> scheduler" where
  "stop s = s \<lparr> isStopped := True, isPaused := False, runningTasks := [] \<rparr>"

text \<open>
  The handlers of the Control API. Without Redis the queue object they find in the
  \<open>queues\<close> map is the one \<open>executeQueue\<close> runs, and what they assign to it the scheduler
  reads: \<open>handleRetryTask\<close> resets a task, and \<open>handleStartQueue\<close>, \<open>handlePauseQueue\<close> and
  \<open>handleResumeQueue\<close> set the status of the queue (\<open>handleStartQueue\<close> its \<open>startedAt\<close>
  too). With Redis they work on an object of their own, loaded from the store.
\<close>

definition retry_task :: "string \<Rightarrow> scheduler \<Rightarrow> scheduler" where
  "retry_task taskId s =
     (case find_index_of taskId (tasks (queue s)) of
        None \<Rightarrow> s
      | Some i \<Rightarrow>
          update_task i
            (\<lambda>t. t \<lparr> status := pending, retryCount := 0, error := None, result := None,
                     startedAt := None, completedAt := None \<rparr>) s)"

definition handler_status :: "QueueStatus \<Rightarrow> int option \<Rightarrow> scheduler \<Rightarrow> scheduler" where
  "handler_status st started s =
     s \<lparr> queue := (queue s)
           \<lparr> queue_status := st,
             queue_startedAt := (case started of Some n \<Rightarrow> Some n | None \<Rightarrow> queue_startedAt (queue s)) \<rparr> \<rparr>"

text \<open>
  A schedule is a list of actions: the generator runs to its next suspension at the time
  given (\<open>Sched now\<close>), or the environment acts.
\<close>

datatype action =
  Sched int
  | Settle string outcome
  | TimerFires nat
  | Pause
  | Resume
  | Stop
  | RetryTask string
  | HandlerStatus QueueStatus "int option"

fun step ::
  "(int \<Rightarrow> string \<Rightarrow> agent option) \<Rightarrow> action \<Rightarrow> scheduler \<Rightarrow> scheduler \<times> TaskQueueEvent list" where
  "step getAgent (Sched now) s = sched_step getAgent now s"
| "step getAgent (Settle tid res) s = (settle tid res s, [])"
| "step getAgent (TimerFires i) s = (timer_fires i s, [])"
| "step getAgent Pause s = (pause s, [])"
| "step getAgent Resume s = (resume s, [])"
| "step getAgent Stop s = (stop s, [])"
| "step getAgent (RetryTask tid) s = (retry_task tid s, [])"
| "step getAgent (HandlerStatus st started) s = (handler_status st started s, [])"

text \<open>Running a schedule: the state reached and the events yielded, in order.\<close>

fun run ::
  "(int \<Rightarrow> string \<Rightarrow> agent option) \<Rightarrow> action list \<Rightarrow> scheduler \<Rightarrow> scheduler \<times> TaskQueueEvent list" where
  "run getAgent [] s = (s, [])"
| "run getAgent (a # as) s =
     (let (s1, es1) = step getAgent a s; (s2, es2) = run getAgent as s1 in (s2, es1 @ es2))"

text \<open>
  The events of one task, by kind, and the order the scheduler keeps them in: a task is
  idle, in flight or finished; \<open>task_started\<close> takes it from idle to in flight,
  \<open>task_retrying\<close> back to idle, \<open>task_completed\<close> and \<open>task_failed\<close> from in flight to
  finished, and \<open>task_failed\<close> also from idle to finished (the agent was not found when
  the task was to be started). Any other event is out of order.
\<close>

datatype task_event = Started | Retrying | Completed | Failed

fun event_kind :: "TaskQueueEvent \<Rightarrow> (string \<times> task_event) option" where
  "event_kind (task_started q t a) = Some (t, Started)"
| "event_kind (task_retrying q t n m) = Some (t, Retrying)"
| "event_kind (task_completed q t r) = Some (t, Completed)"
| "event_kind (task_failed q t e) = Some (t, Failed)"
| "event_kind _ = None"

fun task_events :: "string \<Rightarrow> TaskQueueEvent list \<Rightarrow> task_event list" where
  "task_events tid [] = []"
| "task_events tid (ev # evs) =
     (case event_kind ev of
        Some (t, k) \<Rightarrow> if t = tid then k # task_events tid evs else task_events tid evs
      | None \<Rightarrow> task_events tid evs)"

datatype phase = Idle | InFlight | Finished | OutOfOrder

fun advance :: "phase \<Rightarrow> task_event \<Rightarrow> phase" where
  "advance Idle Started = InFlight"
| "advance Idle Failed = Finished"
| "advance InFlight Retrying = Idle"
| "advance InFlight Completed = Finished"
| "advance InFlight Failed = Finished"
| "advance _ _ = OutOfOrder"



text \<open>
  The bound \<open>maxRetries\<close> puts on the retry counter: the counter is at most \<open>maxRetries\<close>
  rounded up to an integer, and at most 0 when that is negative. This is
  \<open>retryCount <= maxRetries\<close> when \<open>maxRetries\<close> is an integer that is not negative.
\<close>

fun within_retries :: "int \<Rightarrow> number \<Rightarrow> bool" where
  "within_retries n (Finite r) = (n \<le> max 0 \<lceil>r\<rceil>)"
| "within_retries n PlusInfinity = True"
| "within_retries n MinusInfinity = (n \<le> 0)"

text \<open>
  The bounds on the retry counters that \<open>handleCreateQueue\<close> sets up: no task has made
  more retries than its \<open>maxRetries\<close> allows, and \<open>maxRetries\<close> is at most the queue's
  \<open>retryCount\<close> setting.
\<close>

definition retry_bounds :: "TaskQueue \<Rightarrow> bool" where
  "retry_bounds q =
     list_all (\<lambda>t. 0 \<le> retryCount t \<and> within_retries (retryCount t) (maxRetries t)
                  \<and> number_le (maxRetries t) (settings_retryCount (settings q))) (tasks q)"




text \<open>The phase of a task after a sequence of events.\<close>

definition phase_after :: "TaskQueueEvent list \<Rightarrow> string \<Rightarrow> phase" where
  "phase_after evs tid = foldl advance Idle (task_events tid evs)"







section \<open>Example inputs\<close>

definition agent0 :: agent where
  "agent0 = \<lparr> agent_id = ''A1'', apiEndpoint = ''http://localhost:8081'', workingDirectory = ''/w'' \<rparr>"

definition demo_task :: "string \<Rightarrow> string \<Rightarrow> TaskStatus \<Rightarrow> int \<Rightarrow> QueueTask" where
  "demo_task i a st p =
     \<lparr> task_id = i, agentId = a, task_message = ''do it'', status = st, priority = p,
       estimatedComplexity = None, retryCount = 0, maxRetries = of_integer 3, createdAt = 1000,
       startedAt = None, completedAt = None, result = None, error = None, metadata = None \<rparr>"

definition ready_demo :: "QueueTask list" where
  "ready_demo =
     [demo_task ''T1'' ''A1'' pending 5, demo_task ''T2'' ''A1'' in_progress 1,
      demo_task ''T3'' ''A1'' queued 2, demo_task ''T4'' ''A1'' pending 2,
      demo_task ''T5'' ''A1'' pending 9]"

text \<open>
  A \<open>JSON.parse\<close> that knows two lines and rejects every other: \<open>null\<close>, and a
  \<open>claude_json\<close> frame with an assistant message whose one block has an object with a
  \<open>toString\<close> property for its text.
\<close>

definition text_object_frame :: json where
  "text_object_frame =
     JObj [(''type'', JStr ''claude_json''),
           (''data'', JObj [(''type'', JStr ''assistant''),
                            (''message'', JObj [(''content'',
                               JArr [JObj [(''text'', JObj [(''toString'', JNum ''1'')])]])])])]"

definition text_object_line :: string where
  \<open>text_object_line =
     ''{"type":"claude_json","data":{"type":"assistant","message":{"content":[{"text":{"toString":1}}]}}}''\<close>

definition parse_demo :: "string \<Rightarrow> json option" where
  "parse_demo l =
     (if l = ''null'' then Some JNull
      else if l = text_object_line then Some text_object_frame
      else None)"

text \<open>Ids as \<open>generateId\<close> might hand them out, and a request for eleven tasks without
  priorities.\<close>

definition gen_demo :: "nat \<Rightarrow> string" where
  "gen_demo n = ''id-'' @ decimal (int n)"

definition input_demo :: TaskInput where
  "input_demo = \<lparr> input_agentId = ''A1'', input_message = ''do it'', input_priority = None,
                  input_estimatedComplexity = None \<rparr>"

definition eleven_tasks_request :: CreateQueueRequest where
  "eleven_tasks_request =
     \<lparr> req_name = Some ''big'', req_description = None,
       req_tasks = Some [input_demo, input_demo, input_demo, input_demo, input_demo, input_demo,
                         input_demo, input_demo, input_demo, input_demo, input_demo],
       req_settings = None \<rparr>"

definition priority_zero_request :: CreateQueueRequest where
  "priority_zero_request =
     \<lparr> req_name = Some ''zero'', req_description = None,
       req_tasks = Some [input_demo \<lparr> input_priority := Some 0 \<rparr>],
       req_settings = None \<rparr>"

text \<open>A queue as a crash leaves it in the store: running, its first task in progress.\<close>

definition demo_settings :: TaskQueueSettings where
  "demo_settings = \<lparr> maxConcurrency = 3, settings_retryCount = of_integer 3, retryDelay = 2000,
                     timeoutPerTask = 300000 \<rparr>"

definition demo_error :: TaskError where
  "demo_error = \<lparr> error_type = execution, message = JStr ''boom'', retryable = False,
                  occurredAt = 1500 \<rparr>"

definition crashed_queue :: TaskQueue where
  "crashed_queue =
     \<lparr> queue_id = ''Q1'', name = ''nightly'', description = Some ''nightly jobs'',
       tasks = [(demo_task ''T1'' ''A1'' in_progress 1) \<lparr> startedAt := Some 1200 \<rparr>,
                demo_task ''T2'' ''A2'' pending 2],
       settings = demo_settings, queue_status = q_running, queue_createdAt = 1000,
       queue_startedAt = Some 1100, queue_completedAt = None,
       metrics = createInitialMetrics 2 \<rparr>"

text \<open>A queue whose only task has failed.\<close>

definition failed_queue :: TaskQueue where
  "failed_queue =
     \<lparr> queue_id = ''Q2'', name = ''once'', description = None,
       tasks = [(demo_task ''T9'' ''A1'' failed 1)
                  \<lparr> retryCount := 3, startedAt := Some 1200, completedAt := Some 1500,
                    error := Some demo_error \<rparr>],
       settings = demo_settings, queue_status = q_failed, queue_createdAt = 1000,
       queue_startedAt = Some 1100, queue_completedAt = None,
       metrics = createInitialMetrics 1 \<rparr>"

text \<open>A lookup that knows the agent \<open>A1\<close> only, and queues of one task.\<close>

definition getAgent_demo :: "int \<Rightarrow> string \<Rightarrow> agent option" where
  "getAgent_demo now a = (if a = ''A1'' then Some agent0 else None)"

text \<open>The agent \<open>A1\<close> is known until time 7 and unknown from then on.\<close>

definition getAgent_leaving :: "int \<Rightarrow> string \<Rightarrow> agent option" where
  "getAgent_leaving now a = (if a = ''A1'' \<and> now < 8 then Some agent0 else None)"

definition one_task_queue :: "string \<Rightarrow> TaskQueue" where
  "one_task_queue a =
     \<lparr> queue_id = ''Q'', name = ''single'', description = None,
       tasks = [demo_task ''T1'' a pending 1],
       settings = demo_settings, queue_status = q_running, queue_createdAt = 1000,
       queue_startedAt = Some 1100, queue_completedAt = None,
       metrics = createInitialMetrics 1 \<rparr>"

definition ok_result :: TaskResult where
  "ok_result = \<lparr> result_type = success, content = ''ok'', sessionId = None,
                 result_completedAt = 1400 \<rparr>"

definition transient_error :: TaskError where
  "transient_error = \<lparr> error_type = execution, message = JStr ''Agent A1 server error (503): busy'',
                       retryable = True, occurredAt = 1300 \<rparr>"


text \<open>
  The invocation fails with a retryable error while the generator is suspended at
  \<open>yield taskStartEvent\<close>; the retry timer fires during the 50 ms sleep; the second
  invocation succeeds, again before the drain loop.
\<close>

definition schedule_retry :: "action list" where
  "schedule_retry =
     [Sched 1, Sched 2, Sched 3, Settle ''T1'' (Inr transient_error), Sched 4, Sched 5, Sched 6,
      Sched 7, TimerFires 0, Sched 8, Sched 9, Settle ''T1'' (Inl ok_result), Sched 10, Sched 11,
      Sched 12, Sched 13, Sched 14, Sched 15, Sched 16, Sched 17]"

text \<open>
  The invocation succeeds during a 100 ms sleep of the main loop, when nothing is left to
  dispatch.
\<close>

definition schedule_late_result :: "action list" where
  "schedule_late_result =
     [Sched 1, Sched 2, Sched 3, Sched 4, Sched 5, Sched 6, Settle ''T1'' (Inl ok_result),
      Sched 7, Sched 8, Sched 9, Sched 10]"








text \<open>A request whose settings ask for \<open>maxConcurrency = -1\<close>.\<close>

definition negative_concurrency_request :: CreateQueueRequest where
  "negative_concurrency_request =
     \<lparr> req_name = Some ''none'', req_description = None, req_tasks = Some [input_demo],
       req_settings = Some \<lparr> input_maxConcurrency = Some (- 1), input_retryCount = None,
                              input_retryDelay = None, input_timeoutPerTask = None \<rparr> \<rparr>"

section \<open>Metrics account for every task\<close>

lemma status_partition:
  "length ts =
     length (filter (\<lambda>t. status t = completed) ts)
   + length (filter (\<lambda>t. status t = failed) ts)
   + length (filter (\<lambda>t. status t = pending \<or> status t = queued) ts)
   + length (filter (\<lambda>t. status t = in_progress) ts)
   + length (filter (\<lambda>t. status t = retrying \<or> status t = cancelled) ts)"
proof (induction ts)
  case Nil
  show ?case by simp
next
  case (Cons t ts)
  then show ?case by (cases "status t") simp_all
qed

text \<open>
  Claim C10. In every snapshot of \<open>calculateMetrics\<close> the four per-status counters sum to
  at most \<open>totalTasks\<close>; the difference is exactly the number of tasks whose status is
  \<open>retrying\<close> or \<open>cancelled\<close>, so the inequality is strict exactly when such a task exists.
\<close>

theorem calculateMetrics_counts:
  fixes ts :: "QueueTask list"
  defines "m \<equiv> calculateMetrics ts"
  shows "completedTasks m + failedTasks m + pendingTasks m + inProgressTasks m \<le> totalTasks m
       \<and> totalTasks m = completedTasks m + failedTasks m + pendingTasks m + inProgressTasks m
            + length (filter (\<lambda>t. status t = retrying \<or> status t = cancelled) ts)
       \<and> ((completedTasks m + failedTasks m + pendingTasks m + inProgressTasks m < totalTasks m)
            = (\<exists>t \<in> set ts. status t = retrying \<or> status t = cancelled))"
proof -
  let ?other = "filter (\<lambda>t. status t = retrying \<or> status t = cancelled) ts"
  have total: "totalTasks m
      = completedTasks m + failedTasks m + pendingTasks m + inProgressTasks m + length ?other"
    unfolding m_def calculateMetrics_def Let_def
    using status_partition [of ts] by simp
  have "(0 < length ?other) = (\<exists>t \<in> set ts. status t = retrying \<or> status t = cancelled)"
    by (simp add: filter_empty_conv)
  with total show ?thesis by linarith
qed

section \<open>Agent Invoker: responses that are not 2xx\<close>






text \<open>
  A defect that the statement above leaves out. Every \<open>error\<close> frame is answered with
  \<open>retryable: true\<close>, so a request that the agent refused with 401 is retried until
  \<open>maxRetries\<close> is used up. \<open>isRetryableError\<close>, which \<open>startTask\<close> applies to an invocation
  that throws, tells the statuses apart by the message and would not retry the \<open>Error\<close>
  thrown for a 401, while it would retry the one thrown for a 503; but the generator
  catches that \<open>Error\<close> itself, and \<open>isRetryableError\<close> never gets to see it.
\<close>

lemma authentication_failure_is_retryable:
  "map_option retryable
     (error_of (executeTaskAsync (\<lambda>l. None) agent0
        (FetchResponse \<lparr> http_status = 401, error_text = None, body = None \<rparr>) 7))
     = Some True
   \<and> \<not> isRetryableError (JsError ''Error''
          (status_error_message agent0 \<lparr> http_status = 401, error_text = None, body = None \<rparr>))
   \<and> isRetryableError (JsError ''Error''
          (status_error_message agent0 \<lparr> http_status = 503, error_text = None, body = None \<rparr>))"
  by code_simp

section \<open>The ready set\<close>

lemma before_in_sorted_filter:
  assumes "sorted_wrt (<) (F :: nat list)" and "filter P S = filter P F"
    and "S = xs @ i # ys" and "j \<in> set ys" and "P i" and "P j"
  shows "i < j"
proof -
  from \<open>j \<in> set ys\<close> obtain ys1 ys2 where ys: "ys = ys1 @ j # ys2"
    by (auto simp: in_set_conv_decomp)
  have "filter P S = filter P xs @ i # filter P ys1 @ j # filter P ys2"
    using assms(3,5,6) ys by simp
  with assms(2) have "filter P F = filter P xs @ i # filter P ys1 @ j # filter P ys2" by simp
  moreover have "sorted_wrt (<) (filter P F)" using assms(1) by (rule sorted_wrt_filter)
  ultimately show ?thesis by (simp add: sorted_wrt_append)
qed

lemma take_drop_order:
  assumes "sorted (map f S)" and "i \<in> set (take n S)" and "j \<in> set (drop n S)"
  shows "f i \<le> (f j :: int)"
proof -
  have "sorted (map f (take n S @ drop n S))" using assms(1) by simp
  then show ?thesis using assms(2,3) unfolding map_append sorted_append by auto
qed

lemma take_drop_split:
  assumes "i \<in> set (take n S)" and "j \<in> set (drop n S)"
  shows "\<exists>xs ys. S = xs @ i # ys \<and> j \<in> set ys"
proof -
  from assms(1) obtain a b where "take n S = a @ i # b" by (auto simp: in_set_conv_decomp)
  then have "S = a @ i # (b @ drop n S)" by (metis append_take_drop_id append.assoc append_Cons)
  moreover have "j \<in> set (b @ drop n S)" using assms(2) by simp
  ultimately show ?thesis by blast
qed

text \<open>
  Claim C7, as the code has it. The tasks \<open>getReadyTasks\<close> returns (as positions in
  \<open>queue.tasks\<close>) are all \<open>pending\<close> or \<open>queued\<close>; there are at most
  \<open>max(0, maxConcurrency - running)\<close> of them, so none when \<open>maxConcurrency\<close> minus the
  number of running tasks is zero or negative; and a selected task never has a greater
  priority value than a pending or queued task left unselected, a tie being broken in
  favour of the task inserted earlier.
\<close>

theorem getReadyTasks_selection:
  fixes ts :: "QueueTask list" and currentRunning :: nat and maxConc :: int
  defines "R \<equiv> getReadyTasks currentRunning ts maxConc"
  shows "(\<forall>i \<in> set R. i < length ts \<and> (status (ts ! i) = pending \<or> status (ts ! i) = queued))
       \<and> distinct R
       \<and> int (length R) \<le> max 0 (maxConc - int currentRunning)
       \<and> (maxConc - int currentRunning \<le> 0 \<longrightarrow> R = [])
       \<and> (\<forall>i \<in> set R. \<forall>j < length ts.
             (status (ts ! j) = pending \<or> status (ts ! j) = queued) \<and> j \<notin> set R \<longrightarrow>
               priority (ts ! i) \<le> priority (ts ! j)
               \<and> (priority (ts ! i) = priority (ts ! j) \<longrightarrow> i < j))"
proof (cases "maxConc - int currentRunning \<le> 0")
  case True
  then show ?thesis by (simp add: R_def getReadyTasks_def)
next
  case False
  define F where "F = filter (\<lambda>i. status (ts ! i) = pending \<or> status (ts ! i) = queued) [0..<length ts]"
  define f where "f = (\<lambda>i. priority (ts ! i))"
  define S where "S = sort_key f F"
  define n where "n = nat (maxConc - int currentRunning)"
  have R: "R = take n S"
    using False by (simp add: R_def getReadyTasks_def F_def f_def S_def n_def Let_def)
  have setS: "set S = set F" and dS: "distinct S" and sS: "sorted (map f S)"
    by (simp_all add: S_def F_def)
  have sF: "sorted_wrt (<) F" unfolding F_def by (rule sorted_wrt_filter) simp
  have memF: "\<And>i. i \<in> set F \<longleftrightarrow> i < length ts \<and> (status (ts ! i) = pending \<or> status (ts ! i) = queued)"
    by (auto simp: F_def)
  have sub: "set R \<subseteq> set F" using setS R by (metis set_take_subset)
  have p1: "\<forall>i \<in> set R. i < length ts \<and> (status (ts ! i) = pending \<or> status (ts ! i) = queued)"
    using sub memF by blast
  have p2: "distinct R" using dS R by simp
  have p3: "int (length R) \<le> max 0 (maxConc - int currentRunning)"
    using False by (simp add: R n_def)
  have p4: "priority (ts ! i) \<le> priority (ts ! j)
               \<and> (priority (ts ! i) = priority (ts ! j) \<longrightarrow> i < j)"
    if i: "i \<in> set R" and j: "j < length ts" "status (ts ! j) = pending \<or> status (ts ! j) = queued"
      "j \<notin> set R" for i j
  proof -
    have "j \<in> set S" using j memF setS by simp
    then have "j \<in> set (take n S) \<union> set (drop n S)" by (metis append_take_drop_id set_append)
    then have jd: "j \<in> set (drop n S)" using j(3) R by simp
    have it: "i \<in> set (take n S)" using i R by simp
    have le: "f i \<le> f j" using sS it jd by (rule take_drop_order)
    have "i < j" if eq: "f i = f j"
    proof -
      from take_drop_split [OF it jd] obtain xs ys where sp: "S = xs @ i # ys" "j \<in> set ys" by blast
      have st: "filter (\<lambda>y. f y = f i) S = filter (\<lambda>y. f y = f i) F"
        unfolding S_def by (rule sort_key_stable)
      show ?thesis
        by (rule before_in_sorted_filter [OF sF st sp]) (simp_all add: eq [symmetric])
    qed
    with le show ?thesis by (simp add: f_def)
  qed
  from p1 p2 p3 p4 False show ?thesis by blast
qed

lemma ready_demo_selected: "getReadyTasks 2 ready_demo 4 = [2, 3]"
  by (simp add: getReadyTasks_def ready_demo_def demo_task_def upt_rec)

theorem getReadyTasks_selection_witness:
  "getReadyTasks 2 ready_demo 4 = [2, 3]
   \<and> status (ready_demo ! 2) = queued \<and> status (ready_demo ! 3) = pending
   \<and> int (length (getReadyTasks 2 ready_demo 4)) \<le> max 0 (4 - int 2)
   \<and> status (ready_demo ! 0) = pending \<and> 0 \<notin> set (getReadyTasks 2 ready_demo 4)
   \<and> priority (ready_demo ! 3) \<le> priority (ready_demo ! 0)"
proof -
  have sel: "getReadyTasks 2 ready_demo 4 = [2, 3]" by (rule ready_demo_selected)
  have st: "status (ready_demo ! 2) = queued" "status (ready_demo ! 3) = pending"
    "status (ready_demo ! 0) = pending"
    by (simp_all add: ready_demo_def demo_task_def)
  have len: "length ready_demo = 5" by (simp add: ready_demo_def)
  from getReadyTasks_selection [of 2 ready_demo 4]
  have bound: "int (length (getReadyTasks 2 ready_demo 4)) \<le> max 0 (4 - int 2)"
    and order: "\<forall>i \<in> set (getReadyTasks 2 ready_demo 4). \<forall>j < length ready_demo.
             (status (ready_demo ! j) = pending \<or> status (ready_demo ! j) = queued)
               \<and> j \<notin> set (getReadyTasks 2 ready_demo 4) \<longrightarrow>
               priority (ready_demo ! i) \<le> priority (ready_demo ! j)
               \<and> (priority (ready_demo ! i) = priority (ready_demo ! j) \<longrightarrow> i < j)"
    by simp_all
  have "3 \<in> set (getReadyTasks 2 ready_demo 4)" "0 \<notin> set (getReadyTasks 2 ready_demo 4)"
    by (simp_all add: sel)
  with order st len have "priority (ready_demo ! 3) \<le> priority (ready_demo ! 0)"
    by (metis zero_less_numeral)
  with sel st bound show ?thesis by simp
qed

text \<open>
  Claim C7 as stated fails for a queue created with \<open>settings.maxConcurrency = -1\<close>:
  with no task running \<open>getReadyTasks\<close> returns the empty list for it, whose size 0 is
  not at most \<open>maxConcurrency - 0 = -1\<close>.
\<close>

theorem negative_slots_counterexample:
  "map_option (\<lambda>q. (maxConcurrency (settings q), map status (tasks q),
                     getReadyTasks 0 (tasks q) (maxConcurrency (settings q)),
                     int (length (getReadyTasks 0 (tasks q) (maxConcurrency (settings q))))
                       \<le> maxConcurrency (settings q) - int 0))
     (reply_queue (fst (handleCreateQueue None Map.empty gen_demo 1000 negative_concurrency_request)))
   = Some (- 1, [pending], [], False)"
  by code_simp

section \<open>Agent Invoker: failures reach the consumer as frames\<close>

lemma catch_frame_failure: "failure_frame (catch_frame e)"
  by (cases e) (simp_all add: catch_frame_def failure_frame_def aborted_frame_def error_frame_def
      get_prop_def)

lemma js_toString_raises:
  "js_toString v = Raise e \<Longrightarrow> e = cannot_convert"
  "js_join vs = Raise e \<Longrightarrow> e = cannot_convert"
  "js_elem w = Raise e \<Longrightarrow> e = cannot_convert"
  by (induction v and vs and w rule: js_toString_js_join_js_elem.induct)
    (auto split: completion.splits if_splits)

lemma append_blocks_returns:
  "list_all block_ok bs \<Longrightarrow> \<exists>c. append_blocks bs fullContent = Normal c"
  by (induction bs arbitrary: fullContent)
    (auto simp: block_ok_def has_string_def split: completion.splits)

lemma append_blocks_throws:
  "\<not> list_all block_ok bs \<Longrightarrow> \<exists>m. append_blocks bs fullContent = Raise (JsError ''TypeError'' m)"
proof (induction bs arbitrary: fullContent)
  case Nil
  then show ?case by simp
next
  case (Cons b bs)
  show ?case
  proof (cases "block_ok b")
    case True
    with Cons.prems have "\<not> list_all block_ok bs" by simp
    from Cons.IH [OF this] True show ?thesis
      by (auto simp: block_ok_def has_string_def split: completion.splits)
  next
    case False
    then show ?thesis
      by (auto simp: block_ok_def has_string_def cannot_read_null_def cannot_convert_def
          split: completion.splits dest!: js_toString_raises(1))
  qed
qed

lemma append_content_returns:
  "content_ok c \<Longrightarrow> \<exists>c'. append_content c fullContent = Normal c'"
  by (cases c) (simp_all add: content_ok_def append_content_def append_blocks_returns)

lemma append_content_throws:
  "\<not> content_ok c \<Longrightarrow> \<exists>m. append_content c fullContent = Raise (JsError ''TypeError'' m)"
  by (cases c) (simp_all add: content_ok_def append_content_def append_blocks_throws not_iterable_def)

lemma consume_frames_returns:
  "list_all frame_ok (frames_read fs) \<Longrightarrow>
     \<exists>v. consume_frames fs (Normal ()) now fullContent sid = Normal v"
proof (induction fs arbitrary: fullContent sid)
  case Nil
  show ?case by simp
next
  case (Cons f fs)
  from Cons.prems have ok: "frame_ok f" by (simp split: if_splits)
  from ok have nn: "f \<noteq> JNull" by (simp add: frame_ok_def)
  show ?case
  proof (cases "get_prop f ''type'' = Some (JStr ''claude_json'') \<and> truthy (get_prop f ''data'')")
    case False
    show ?thesis
    proof (cases "get_prop f ''type'' = Some (JStr ''error'') \<or> get_prop f ''type'' = Some (JStr ''aborted'')")
      case True
      with nn False show ?thesis by auto
    next
      case stop: False
      with Cons.prems have "list_all frame_ok (frames_read fs)" by simp
      from Cons.IH [OF this] nn False stop show ?thesis by auto
    qed
  next
    case cj: True
    then have stop: "\<not> (get_prop f ''type'' = Some (JStr ''error'') \<or> get_prop f ''type'' = Some (JStr ''aborted''))"
      by auto
    with Cons.prems have rest: "list_all frame_ok (frames_read fs)" by simp
    let ?data = "the (get_prop f ''data'')"
    show ?thesis
    proof (cases "get_prop ?data ''type'' = Some (JStr ''assistant'') \<and> truthy (message_content ?data)")
      case False
      with nn cj Cons.IH [OF rest] show ?thesis by (auto simp: Let_def)
    next
      case True
      with ok cj have "content_ok (the (message_content ?data))" by (simp add: frame_ok_def)
      from append_content_returns [OF this, of fullContent]
      obtain c' where "append_content (the (message_content ?data)) fullContent = Normal c'" ..
      with nn cj True Cons.IH [OF rest] show ?thesis by (auto simp: Let_def)
    qed
  qed
qed

lemma consume_frames_throws:
  "\<not> list_all frame_ok (frames_read fs) \<Longrightarrow>
     \<exists>m. consume_frames fs (Normal ()) now fullContent sid = Raise (JsError ''TypeError'' m)"
proof (induction fs arbitrary: fullContent sid)
  case Nil
  then show ?case by simp
next
  case (Cons f fs)
  show ?case
  proof (cases "f = JNull")
    case True
    then show ?thesis by (simp add: cannot_read_null_def)
  next
    case nn: False
    show ?thesis
    proof (cases "get_prop f ''type'' = Some (JStr ''claude_json'') \<and> truthy (get_prop f ''data'')")
      case False
      then have ok: "frame_ok f" using nn by (auto simp: frame_ok_def)
      show ?thesis
      proof (cases "get_prop f ''type'' = Some (JStr ''error'') \<or> get_prop f ''type'' = Some (JStr ''aborted'')")
        case True
        with Cons.prems ok show ?thesis by simp
      next
        case stop: False
        with Cons.prems ok have "\<not> list_all frame_ok (frames_read fs)" by simp
        from Cons.IH [OF this] nn False stop show ?thesis by auto
      qed
    next
      case cj: True
      then have stop: "\<not> (get_prop f ''type'' = Some (JStr ''error'') \<or> get_prop f ''type'' = Some (JStr ''aborted''))"
        by auto
      let ?data = "the (get_prop f ''data'')"
      show ?thesis
      proof (cases "get_prop ?data ''type'' = Some (JStr ''assistant'') \<and> truthy (message_content ?data)")
        case False
        with nn cj have ok: "frame_ok f" by (auto simp: frame_ok_def)
        with Cons.prems stop have "\<not> list_all frame_ok (frames_read fs)" by simp
        from Cons.IH [OF this] nn cj False show ?thesis by (auto simp: Let_def)
      next
        case True
        show ?thesis
        proof (cases "content_ok (the (message_content ?data))")
          case False
          from append_content_throws [OF this, of fullContent]
          obtain m where "append_content (the (message_content ?data)) fullContent
                            = Raise (JsError ''TypeError'' m)" ..
          with nn cj True show ?thesis by (auto simp: Let_def)
        next
          case cok: True
          with nn cj True have ok: "frame_ok f" by (simp add: frame_ok_def)
          with Cons.prems stop have rest: "\<not> list_all frame_ok (frames_read fs)" by simp
          from append_content_returns [OF cok, of fullContent]
          obtain c' where "append_content (the (message_content ?data)) fullContent = Normal c'" ..
          with nn cj True Cons.IH [OF rest] show ?thesis by (auto simp: Let_def)
        qed
      qed
    qed
  qed
qed

lemma generator_returns: "snd (executeAgentHttpRequest parse a fr) = Normal ()"
  by (simp add: executeAgentHttpRequest_def split: prod.splits completion.splits)

text \<open>
  Claim C9, as the code has it. The generator never throws to its consumer. Whatever is
  thrown inside it (a rejected \<open>fetch\<close>, a status that is not 2xx, a missing body, a
  missed read deadline, a rejected read, an abort) is caught and becomes its last frame,
  of type \<open>error\<close> or \<open>aborted\<close>. A line that is not JSON throws nothing: it is skipped.
  \<open>executeTaskAsync\<close> returns a \<open>TaskResult\<close> or a \<open>TaskError\<close> exactly when every frame
  it reads can be read (\<open>frame_ok\<close>); otherwise it rejects with a TypeError, and what
  \<open>startTask\<close> then leaves in \<open>completedResults\<close> is a \<open>TaskError\<close> of type \<open>execution\<close>.
\<close>

theorem executeAgentHttpRequest_never_throws:
  "snd (executeAgentHttpRequest parse a fr) = Normal ()
   \<and> (\<forall>fs e. executeAgentHttpRequest_try parse a fr = (fs, Raise e) \<longrightarrow>
         fst (executeAgentHttpRequest parse a fr) = fs @ [catch_frame e]
         \<and> failure_frame (catch_frame e))
   \<and> ((\<exists>v. executeTaskAsync parse a fr now = Normal v)
        \<longleftrightarrow> list_all frame_ok (frames_read (fst (executeAgentHttpRequest parse a fr))))
   \<and> ((\<exists>m. executeTaskAsync parse a fr now = Raise (JsError ''TypeError'' m))
        \<longleftrightarrow> \<not> list_all frame_ok (frames_read (fst (executeAgentHttpRequest parse a fr))))
   \<and> (\<forall>e. executeTaskAsync parse a fr now = Raise e \<longrightarrow>
         map_option error_type (error_of (Normal (startTask_outcome (Raise e) later)))
           = Some execution)"
proof -
  obtain frames gen_end where g: "executeAgentHttpRequest parse a fr = (frames, gen_end)"
    by (cases "executeAgentHttpRequest parse a fr")
  with generator_returns [of parse a fr] have ge: "gen_end = Normal ()" by simp
  have ex: "executeTaskAsync parse a fr now = consume_frames frames (Normal ()) now [] None"
    by (simp add: executeTaskAsync_def g ge)
  have ok: "\<exists>v. executeTaskAsync parse a fr now = Normal v" if "list_all frame_ok (frames_read frames)"
    using consume_frames_returns [OF that, of now "[]" None] by (simp add: ex)
  have bad: "\<exists>m. executeTaskAsync parse a fr now = Raise (JsError ''TypeError'' m)"
    if "\<not> list_all frame_ok (frames_read frames)"
    using consume_frames_throws [OF that, of now "[]" None] by (simp add: ex)
  have c1: "snd (executeAgentHttpRequest parse a fr) = Normal ()" by (rule generator_returns)
  have c2: "\<forall>fs e. executeAgentHttpRequest_try parse a fr = (fs, Raise e) \<longrightarrow>
         fst (executeAgentHttpRequest parse a fr) = fs @ [catch_frame e]
         \<and> failure_frame (catch_frame e)"
    by (simp add: executeAgentHttpRequest_def catch_frame_failure)
  have c34: "((\<exists>v. executeTaskAsync parse a fr now = Normal v) \<longleftrightarrow> list_all frame_ok (frames_read frames))
      \<and> ((\<exists>m. executeTaskAsync parse a fr now = Raise (JsError ''TypeError'' m))
           \<longleftrightarrow> \<not> list_all frame_ok (frames_read frames))"
  proof (cases "list_all frame_ok (frames_read frames)")
    case True
    from ok [OF True] obtain v where "executeTaskAsync parse a fr now = Normal v" ..
    with True show ?thesis by simp
  next
    case False
    from bad [OF False] obtain m where "executeTaskAsync parse a fr now = Raise (JsError ''TypeError'' m)" ..
    with False show ?thesis by simp
  qed
  then have c3: "(\<exists>v. executeTaskAsync parse a fr now = Normal v)
        \<longleftrightarrow> list_all frame_ok (frames_read (fst (executeAgentHttpRequest parse a fr)))"
    and c4: "(\<exists>m. executeTaskAsync parse a fr now = Raise (JsError ''TypeError'' m))
        \<longleftrightarrow> \<not> list_all frame_ok (frames_read (fst (executeAgentHttpRequest parse a fr)))"
    by (simp_all add: g)
  have c5: "\<forall>e. executeTaskAsync parse a fr now = Raise e \<longrightarrow>
         map_option error_type (error_of (Normal (startTask_outcome (Raise e) later)))
           = Some execution"
    by (simp add: startTask_outcome_def error_of_def)
  from c1 c2 c3 c4 c5 show ?thesis by blast
qed

theorem executeAgentHttpRequest_never_throws_witness:
  "executeAgentHttpRequest (\<lambda>l. None) agent0
       (FetchResponse \<lparr> http_status = 200, error_text = None, body = Some ([], ReadTimeout) \<rparr>)
     = ([error_frame ''Stream read timeout after 30 seconds''], Normal ())
   \<and> failure_frame (error_frame ''Stream read timeout after 30 seconds'')
   \<and> list_all frame_ok (frames_read [error_frame ''Stream read timeout after 30 seconds''])
   \<and> (\<exists>v. executeTaskAsync (\<lambda>l. None) agent0
         (FetchResponse \<lparr> http_status = 200, error_text = None, body = Some ([], ReadTimeout) \<rparr>) 7
        = Normal v)"
proof -
  let ?fr = "FetchResponse \<lparr> http_status = 200, error_text = None, body = Some ([], ReadTimeout) \<rparr>"
  have t: "executeAgentHttpRequest_try (\<lambda>l. None) agent0 ?fr
             = ([], Raise (JsError ''Error'' ''Stream read timeout after 30 seconds''))"
    by (simp add: executeAgentHttpRequest_try_def response_ok_def)
  have c: "catch_frame (JsError ''Error'' ''Stream read timeout after 30 seconds'')
             = error_frame ''Stream read timeout after 30 seconds''"
    by (simp add: catch_frame_def)
  have g: "executeAgentHttpRequest (\<lambda>l. None) agent0 ?fr
             = ([error_frame ''Stream read timeout after 30 seconds''], Normal ())"
    by (simp add: executeAgentHttpRequest_def t c)
  have ok: "list_all frame_ok (frames_read [error_frame ''Stream read timeout after 30 seconds''])"
    by (simp add: frame_ok_def error_frame_def get_prop_def)
  from executeAgentHttpRequest_never_throws [of "\<lambda>l. None" agent0 ?fr 7] t c g ok
  show ?thesis by simp
qed

text \<open>
  Claim C9 as stated fails in three ways. A line that holds the JSON value \<open>null\<close> is
  yielded as a frame, and \<open>executeTaskAsync\<close> throws a TypeError reading its \<open>type\<close>: it
  returns neither a \<open>TaskResult\<close> nor a \<open>TaskError\<close>. It throws as well when the text of a
  block is an object with a \<open>toString\<close> property. And a malformed line is not surfaced
  at all: the generator yields no \<open>error\<close> or \<open>aborted\<close> frame for it and the task
  succeeds.
\<close>

theorem executeTaskAsync_rejects_counterexample:
  "executeTaskAsync parse_demo agent0
       (FetchResponse \<lparr> http_status = 200, error_text = None,
                         body = Some ([''null\<newline>''], EndOfStream) \<rparr>) 7
     = Raise (JsError ''TypeError'' ''Cannot read properties of null'')
   \<and> executeTaskAsync parse_demo agent0
       (FetchResponse \<lparr> http_status = 200, error_text = None,
                         body = Some ([text_object_line @ ''\<newline>''], EndOfStream) \<rparr>) 7
     = Raise (JsError ''TypeError'' ''Cannot convert object to primitive value'')
   \<and> executeAgentHttpRequest parse_demo agent0
       (FetchResponse \<lparr> http_status = 200, error_text = None,
                         body = Some ([''{oops\<newline>''], EndOfStream) \<rparr>)
     = ([done_frame], Normal ())"
  by code_simp

section \<open>Queue Store and Control API on concrete stores\<close>

text \<open>
  Claim C5 at a concrete queue. On an empty store, \<open>saveQueue\<close> followed by \<open>loadQueue\<close>
  returns the queue with its id, name, status, settings, metrics, timestamps and tasks in
  insertion order, but without its description: \<open>saveQueue\<close> does not write the
  \<open>description\<close> and \<open>loadQueue\<close> builds an object without one.
\<close>

theorem saveQueue_loadQueue_drops_description:
  "loadQueue (saveQueue (Some empty_redis) crashed_queue) ''Q1''
     = Loaded (crashed_queue \<lparr> description := None \<rparr>)
   \<and> description crashed_queue = Some ''nightly jobs''"
  by code_simp

text \<open>
  Claim C4 at a concrete store. After \<open>resetInterruptedQueue\<close> the queue is paused, the
  task that was in progress is pending, the pending list holds the non-terminal tasks in
  insertion order and no agent is busy; but the task's \<open>startedAt\<close> is still set:
  \<open>updateTask\<close> skips a property that is \<open>undefined\<close>.
\<close>

theorem resetInterruptedQueue_keeps_startedAt:
  "loadTask (resetInterruptedQueue (saveQueue (Some empty_redis) crashed_queue) ''Q1'') ''T1''
     = Loaded ((demo_task ''T1'' ''A1'' pending 1) \<lparr> startedAt := Some 1200 \<rparr>)
   \<and> map_option (\<lambda>db. lists db ''queue:pending:Q1'')
        (resetInterruptedQueue (saveQueue (Some empty_redis) crashed_queue) ''Q1'')
     = Some [''T1'', ''T2'']
   \<and> map_option (\<lambda>db. field_str (hashes db ''queue:Q1'') ''status'')
        (resetInterruptedQueue (saveQueue (Some empty_redis) crashed_queue) ''Q1'')
     = Some (Some ''paused'')
   \<and> getBusyAgents (resetInterruptedQueue (saveQueue (Some empty_redis) crashed_queue) ''Q1'') = {}"
  by code_simp

text \<open>
  Claim C6 at a concrete store. \<open>handleRetryTask\<close> returns the task reset (pending,
  \<open>retryCount\<close> 0, no result, error or timestamps) and pushes its id onto the pending
  list, but in the store only \<open>status\<close> and \<open>retryCount\<close> change: \<open>error\<close>, \<open>startedAt\<close> and
  \<open>completedAt\<close> are passed as \<open>undefined\<close> and \<open>updateTask\<close> skips them.
\<close>

theorem handleRetryTask_store_not_cleared:
  "fst (handleRetryTask (saveQueue (Some empty_redis) failed_queue) Map.empty ''Q2'' ''T9'')
     = RetryOk (demo_task ''T9'' ''A1'' pending 1)
   \<and> loadTask (fst (snd (handleRetryTask (saveQueue (Some empty_redis) failed_queue) Map.empty ''Q2'' ''T9''))) ''T9''
     = Loaded ((demo_task ''T9'' ''A1'' pending 1)
                 \<lparr> startedAt := Some 1200, completedAt := Some 1500, error := Some demo_error \<rparr>)
   \<and> map_option (\<lambda>db. lists db ''queue:pending:Q2'')
        (fst (snd (handleRetryTask (saveQueue (Some empty_redis) failed_queue) Map.empty ''Q2'' ''T9'')))
     = Some [''T9'']"
  by code_simp

text \<open>
  Claim C8 at concrete requests. The eleventh task of a request without priorities gets
  the default \<open>index + 1 = 11\<close>, and a priority the client supplies is stored as it is,
  here 0.
\<close>

theorem handleCreateQueue_priority_out_of_range:
  "map_option (\<lambda>q. map priority (tasks q))
       (reply_queue (fst (handleCreateQueue None Map.empty gen_demo 1000 eleven_tasks_request)))
     = Some [1, 2, 3, 4, 5, 6, 7, 8, 9, 10, 11]
   \<and> map_option (\<lambda>q. map priority (tasks q))
       (reply_queue (fst (handleCreateQueue None Map.empty gen_demo 1000 priority_zero_request)))
     = Some [0]"
  by code_simp

section \<open>Scheduler: the order of a task's events\<close>

subsection \<open>Phases\<close>



lemma phase_after_same: "phase_after (evs @ []) = phase_after evs"
  by simp



subsection \<open>Counting the entries of a list\<close>




subsection \<open>The invariant of one task under each change of the state\<close>
















subsection \<open>The ownership invariant under each change of the state\<close>











subsection \<open>What a step changes\<close>













subsection \<open>Every step keeps the invariant\<close>





















subsection \<open>The order of the events of one task\<close>









text \<open>
  Every step of the order above is taken by some run: when the agent of a task is no
  longer found at its second dispatch, \<open>task_failed\<close> directly follows \<open>task_retrying\<close>.
\<close>

lemma agent_lost_between_attempts:
  "task_events ''T1'' (snd (run getAgent_leaving schedule_retry (new_scheduler (one_task_queue ''A1''))))
     = [Started, Retrying, Failed]"
  by code_simp


text \<open>
  A defect that the statement above leaves out: whether a task reaches its end. The
  main loop handles results only in a round in which it has dispatched a task, and it
  is left as soon as nothing is ready and nothing is running; the loop that waits for
  the remaining tasks runs only while a task is running. So a result that arrives while
  the main loop sleeps with nothing left to dispatch is never handled: here the only
  task succeeds, gets no terminal event and stays \<open>in_progress\<close>, and the queue ends
  with \<open>queue_completed\<close>.
\<close>

lemma late_result_is_never_handled:
  "task_events ''T1'' (snd (run getAgent_demo schedule_late_result (new_scheduler (one_task_queue ''A1''))))
     = [Started]
   \<and> map status (tasks (queue (fst (run getAgent_demo schedule_late_result
                                       (new_scheduler (one_task_queue ''A1'')))))) = [in_progress]
   \<and> map fst (completedResults (fst (run getAgent_demo schedule_late_result
                                       (new_scheduler (one_task_queue ''A1''))))) = [''T1'']
   \<and> pc (fst (run getAgent_demo schedule_late_result (new_scheduler (one_task_queue ''A1'')))) = Done
   \<and> last (snd (run getAgent_demo schedule_late_result (new_scheduler (one_task_queue ''A1''))))
     = queue_completed ''Q''
         \<lparr> totalTasks = 1, completedTasks = 0, failedTasks = 0, pendingTasks = 0,
           inProgressTasks = 1, averageTaskDuration = None \<rparr>"
  by code_simp

section \<open>Scheduler: the retry counter stays within its bound\<close>















lemma retry_bounds_pc: "retry_bounds (queue (s \<lparr> pc := p \<rparr>)) = retry_bounds (queue s)"
  by simp











end
